theory Spec2Isabelle
  imports Complex_Main "HOL-Library.Word" "HOL-Library.Signed_Division"
begin

unbundle bit_operations_syntax

section \<open>The OpenGL render backend (src/render/opengl/SDL_render_gl.c)\<close>

text \<open>
  A shallow embedding of the parts of the OpenGL backend that translate blend modes,
  create and destroy textures, queue point and line vertices and run the command queue.

  Conventions of the embedding.
  \<^item> The OpenGL driver is outside the program. Every call the backend makes through its
    function table is recorded, in order, as a \<open>GLcall\<close>; the functions below return the
    list of calls they make together with the data they leave behind.
  \<^item> A \<open>GLfloat\<close> is a finite single-precision number, represented by the real number it
    denotes. An arithmetic operation on \<open>GLfloat\<close> and a conversion to \<open>GLfloat\<close> yield
    the exact result rounded to the nearest single-precision number, ties to even (see
    the section on single-precision arithmetic). Infinities and NaN are not modelled; the
    operations of the modelled code (adding 0.5, converting an \<open>int\<close>, dividing by a
    positive \<open>int\<close>, multiplying a colour byte by 1/255) do not produce them from finite
    operands. A \<open>GLdouble\<close> is only ever the conversion of an \<open>int\<close> or of a \<open>GLfloat\<close>,
    which is exact.
  \<^item> A C \<open>int\<close> is an \<open>int\<close>; \<open>/\<close> on it is the truncating \<open>sdiv\<close>. Signed overflow is
    undefined in C: where \<open>GL_CreateTexture\<close> computes on the requested size (the loop of
    \<open>power_of_2\<close>, the pitch and the size of the pixel block, the halved sizes of the
    chroma planes), the model has no result as soon as a result leaves the range of
    \<open>int\<close>. The rectangle arithmetic of the executor is written on unbounded integers.
  \<^item> OpenGL enumerants are kept symbolic. The code compares only blend enumerants with
    \<open>GL_INVALID_ENUM\<close> and texture targets with each other.
  \<^item> A read outside the vertex buffer, or through a null pointer, is undefined behaviour
    in C; the model returns \<open>None\<close> there.
\<close>

subsection \<open>Basic types\<close>

type_synonym GLfloat = real
type_synonym GLuint = nat
type_synonym Uint8 = "8 word"
type_synonym Uint32 = "32 word"

datatype GLenum =
    GL_ZERO | GL_ONE | GL_SRC_COLOR | GL_ONE_MINUS_SRC_COLOR | GL_SRC_ALPHA
  | GL_ONE_MINUS_SRC_ALPHA | GL_DST_COLOR | GL_ONE_MINUS_DST_COLOR | GL_DST_ALPHA
  | GL_ONE_MINUS_DST_ALPHA | GL_FUNC_ADD | GL_FUNC_SUBTRACT | GL_FUNC_REVERSE_SUBTRACT
  | GL_INVALID_ENUM
  | GL_BLEND | GL_SCISSOR_TEST | GL_TEXTURE_2D | GL_TEXTURE_RECTANGLE_ARB
  | GL_PROJECTION | GL_MODELVIEW | GL_COLOR_BUFFER_BIT
  | GL_POINTS | GL_LINE_LOOP | GL_LINE_STRIP | GL_TRIANGLE_STRIP
  | GL_TEXTURE0_ARB | GL_TEXTURE1_ARB | GL_TEXTURE2_ARB
  | GL_RGBA8 | GL_BGRA | GL_UNSIGNED_INT_8_8_8_8_REV | GL_LUMINANCE | GL_UNSIGNED_BYTE
  | GL_LUMINANCE_ALPHA | GL_RGB8 | GL_YCBCR_422_APPLE | GL_UNSIGNED_SHORT_8_8_APPLE
  | GL_NEAREST | GL_LINEAR | GL_TEXTURE_MIN_FILTER | GL_TEXTURE_MAG_FILTER
  | GL_TEXTURE_WRAP_S | GL_TEXTURE_WRAP_T | GL_CLAMP_TO_EDGE
  | GL_TEXTURE_STORAGE_HINT_APPLE | GL_STORAGE_SHARED_APPLE | GL_STORAGE_CACHED_APPLE
  | GL_UNPACK_CLIENT_STORAGE_APPLE | GL_UNPACK_ALIGNMENT | GL_UNPACK_ROW_LENGTH

text \<open>The build platform selects code under \<open>#ifdef __MACOSX__\<close> and \<open>__WIN32__\<close>.\<close>

datatype platform = MACOSX | WIN32 | OTHER_PLATFORM

subsection \<open>Single-precision arithmetic\<close>

text \<open>
  The finite single-precision numbers (IEEE 754 binary32) are the reals \<open>m * 2^e\<close> with
  an integer significand \<open>\<bar>m\<bar> < 2^24\<close> and an exponent \<open>-149 \<le> e \<le> 104\<close>.
\<close>

definition is_float32 :: "real \<Rightarrow> bool" where
  "is_float32 x \<longleftrightarrow>
     (\<exists>m e. x = real_of_int m * 2 powi e \<and> \<bar>m\<bar> < 2 ^ 24 \<and> - 149 \<le> e \<and> e \<le> 104)"

text \<open>Rounding a real to the nearest integer, a tie to the even one.\<close>

definition round_half_even :: "real \<Rightarrow> int" where
  "round_half_even y =
     (let f = \<lfloor>y\<rfloor>
      in if y - real_of_int f < 1 / 2 then f
         else if 1 / 2 < y - real_of_int f then f + 1
         else if even f then f else f + 1)"

text \<open>
  Rounding a real \<open>x\<close> to single precision, in the default rounding mode (to nearest,
  ties to even). Around \<open>x\<close> the single-precision numbers are the multiples of
  \<open>2^e\<close>, where \<open>e\<close> is 23 below the binary exponent of \<open>x\<close> and at least -149 (the
  subnormal numbers); \<open>x\<close> is rounded to the nearest multiple. A result beyond the
  largest single-precision number stands for an overflow, which no operation of this
  file reaches from single-precision operands.
\<close>

definition float32_ulp_exponent :: "real \<Rightarrow> int" where
  "float32_ulp_exponent x = max (\<lfloor>log 2 \<bar>x\<bar>\<rfloor> - 23) (- 149)"

definition float32_round :: "real \<Rightarrow> real" where
  "float32_round x =
     (if x = 0 then 0
      else 2 powi float32_ulp_exponent x *
           real_of_int (round_half_even (x / 2 powi float32_ulp_exponent x)))"

text \<open>
  The conversion \<open>(GLfloat) i\<close> of an \<open>int\<close> and the operators \<open>+\<close>, \<open>*\<close> and \<open>/\<close> on
  \<open>GLfloat\<close> operands.
\<close>

definition float32_of_int :: "int \<Rightarrow> GLfloat" where
  "float32_of_int i = float32_round (real_of_int i)"

definition float32_add :: "GLfloat \<Rightarrow> GLfloat \<Rightarrow> GLfloat" where
  "float32_add a b = float32_round (a + b)"

definition float32_mul :: "GLfloat \<Rightarrow> GLfloat \<Rightarrow> GLfloat" where
  "float32_mul a b = float32_round (a * b)"

definition float32_div :: "GLfloat \<Rightarrow> GLfloat \<Rightarrow> GLfloat" where
  "float32_div a b = float32_round (a / b)"

subsection \<open>Blend modes\<close>

text \<open>
  The enumerations \<open>SDL_BlendFactor\<close> and \<open>SDL_BlendOperation\<close>. The switch statements of
  the backend name ten factors and three operations; every other value of the C type
  (the operations MINIMUM and MAXIMUM among them) takes the \<open>default\<close> branch.
\<close>

datatype SDL_BlendFactor =
    SDL_BLENDFACTOR_ZERO | SDL_BLENDFACTOR_ONE
  | SDL_BLENDFACTOR_SRC_COLOR | SDL_BLENDFACTOR_ONE_MINUS_SRC_COLOR
  | SDL_BLENDFACTOR_SRC_ALPHA | SDL_BLENDFACTOR_ONE_MINUS_SRC_ALPHA
  | SDL_BLENDFACTOR_DST_COLOR | SDL_BLENDFACTOR_ONE_MINUS_DST_COLOR
  | SDL_BLENDFACTOR_DST_ALPHA | SDL_BLENDFACTOR_ONE_MINUS_DST_ALPHA
  | SDL_BLENDFACTOR_other nat

datatype SDL_BlendOperation =
    SDL_BLENDOPERATION_ADD | SDL_BLENDOPERATION_SUBTRACT | SDL_BLENDOPERATION_REV_SUBTRACT
  | SDL_BLENDOPERATION_MINIMUM | SDL_BLENDOPERATION_MAXIMUM
  | SDL_BLENDOPERATION_other nat

text \<open>
  An \<open>SDL_BlendMode\<close> is a 32-bit code. The backend compares codes and takes them apart
  with six accessor functions of the renderer front end (SDL_render.c), which are not part
  of this file: they are a parameter of the model.
\<close>

type_synonym SDL_BlendMode = Uint32

definition SDL_BLENDMODE_NONE :: SDL_BlendMode where
  "SDL_BLENDMODE_NONE = 0"

definition SDL_BLENDMODE_INVALID :: SDL_BlendMode where
  "SDL_BLENDMODE_INVALID = 0x7FFFFFFF"

record blendmode_accessors =
  SDL_GetBlendModeSrcColorFactor :: "SDL_BlendMode \<Rightarrow> SDL_BlendFactor"
  SDL_GetBlendModeSrcAlphaFactor :: "SDL_BlendMode \<Rightarrow> SDL_BlendFactor"
  SDL_GetBlendModeColorOperation :: "SDL_BlendMode \<Rightarrow> SDL_BlendOperation"
  SDL_GetBlendModeDstColorFactor :: "SDL_BlendMode \<Rightarrow> SDL_BlendFactor"
  SDL_GetBlendModeDstAlphaFactor :: "SDL_BlendMode \<Rightarrow> SDL_BlendFactor"
  SDL_GetBlendModeAlphaOperation :: "SDL_BlendMode \<Rightarrow> SDL_BlendOperation"

fun GetBlendFunc :: "SDL_BlendFactor \<Rightarrow> GLenum" where
  "GetBlendFunc SDL_BLENDFACTOR_ZERO = GL_ZERO"
| "GetBlendFunc SDL_BLENDFACTOR_ONE = GL_ONE"
| "GetBlendFunc SDL_BLENDFACTOR_SRC_COLOR = GL_SRC_COLOR"
| "GetBlendFunc SDL_BLENDFACTOR_ONE_MINUS_SRC_COLOR = GL_ONE_MINUS_SRC_COLOR"
| "GetBlendFunc SDL_BLENDFACTOR_SRC_ALPHA = GL_SRC_ALPHA"
| "GetBlendFunc SDL_BLENDFACTOR_ONE_MINUS_SRC_ALPHA = GL_ONE_MINUS_SRC_ALPHA"
| "GetBlendFunc SDL_BLENDFACTOR_DST_COLOR = GL_DST_COLOR"
| "GetBlendFunc SDL_BLENDFACTOR_ONE_MINUS_DST_COLOR = GL_ONE_MINUS_DST_COLOR"
| "GetBlendFunc SDL_BLENDFACTOR_DST_ALPHA = GL_DST_ALPHA"
| "GetBlendFunc SDL_BLENDFACTOR_ONE_MINUS_DST_ALPHA = GL_ONE_MINUS_DST_ALPHA"
| "GetBlendFunc (SDL_BLENDFACTOR_other n) = GL_INVALID_ENUM"

fun GetBlendEquation :: "SDL_BlendOperation \<Rightarrow> GLenum" where
  "GetBlendEquation SDL_BLENDOPERATION_ADD = GL_FUNC_ADD"
| "GetBlendEquation SDL_BLENDOPERATION_SUBTRACT = GL_FUNC_SUBTRACT"
| "GetBlendEquation SDL_BLENDOPERATION_REV_SUBTRACT = GL_FUNC_REVERSE_SUBTRACT"
| "GetBlendEquation SDL_BLENDOPERATION_MINIMUM = GL_INVALID_ENUM"
| "GetBlendEquation SDL_BLENDOPERATION_MAXIMUM = GL_INVALID_ENUM"
| "GetBlendEquation (SDL_BLENDOPERATION_other n) = GL_INVALID_ENUM"

definition GL_SupportsBlendMode :: "blendmode_accessors \<Rightarrow> SDL_BlendMode \<Rightarrow> bool" where
  "GL_SupportsBlendMode acc blendMode =
     (let srcColorFactor = SDL_GetBlendModeSrcColorFactor acc blendMode;
          srcAlphaFactor = SDL_GetBlendModeSrcAlphaFactor acc blendMode;
          colorOperation = SDL_GetBlendModeColorOperation acc blendMode;
          dstColorFactor = SDL_GetBlendModeDstColorFactor acc blendMode;
          dstAlphaFactor = SDL_GetBlendModeDstAlphaFactor acc blendMode;
          alphaOperation = SDL_GetBlendModeAlphaOperation acc blendMode
      in if GetBlendFunc srcColorFactor = GL_INVALID_ENUM \<or>
            GetBlendFunc srcAlphaFactor = GL_INVALID_ENUM \<or>
            GetBlendEquation colorOperation = GL_INVALID_ENUM \<or>
            GetBlendFunc dstColorFactor = GL_INVALID_ENUM \<or>
            GetBlendFunc dstAlphaFactor = GL_INVALID_ENUM \<or>
            GetBlendEquation alphaOperation = GL_INVALID_ENUM
         then False
         else if colorOperation \<noteq> alphaOperation then False
         else True)"

text \<open>
  What "maps to a native enum" means on the two tables: the factor is one of the ten
  named factors, the operation is one of ADD, SUBTRACT and REV_SUBTRACT.
\<close>

definition native_factor :: "SDL_BlendFactor \<Rightarrow> bool" where
  "native_factor f = (case f of SDL_BLENDFACTOR_other n \<Rightarrow> False | _ \<Rightarrow> True)"

definition native_operation :: "SDL_BlendOperation \<Rightarrow> bool" where
  "native_operation operation =
     (operation = SDL_BLENDOPERATION_ADD \<or> operation = SDL_BLENDOPERATION_SUBTRACT \<or>
      operation = SDL_BLENDOPERATION_REV_SUBTRACT)"

subsection \<open>Calls made to the driver\<close>

datatype GL_Shader =
    SHADER_INVALID | SHADER_NONE | SHADER_SOLID | SHADER_RGB
  | SHADER_YUV_JPEG | SHADER_YUV_BT601 | SHADER_YUV_BT709
  | SHADER_NV12_JPEG | SHADER_NV12_BT601 | SHADER_NV12_BT709
  | SHADER_NV21_JPEG | SHADER_NV21_BT601 | SHADER_NV21_BT709

text \<open>
  One constructor for each function the backend calls through its function table, with
  the arguments the backend passes. \<open>glGenTextures\<close> and \<open>glGenFramebuffersEXT\<close> carry the
  name the driver handed back; \<open>glTexImage2D\<close> carries, for its last argument, whether a
  pixel pointer (rather than NULL) was passed. The two \<open>SDL_free\<close> calls of
  \<open>GL_DestroyTexture\<close> are recorded in the same list.
\<close>

datatype GLcall =
    glClearColor GLfloat GLfloat GLfloat GLfloat
  | glColor4f GLfloat GLfloat GLfloat GLfloat
  | glEnable GLenum
  | glDisable GLenum
  | glBlendFuncSeparate GLenum GLenum GLenum GLenum
  | glBlendEquation GLenum
  | GL_SelectShader GL_Shader
  | glActiveTextureARB GLenum
  | glBindTexture GLenum GLuint
  | glMatrixMode GLenum
  | glLoadIdentity
  | glViewport int int int int
  | glOrtho real real real real real real
  | glScissor int int int int
  | glClear GLenum
  | glBegin GLenum
  | glVertex2f GLfloat GLfloat
  | glEnd
  | glRectf GLfloat GLfloat GLfloat GLfloat
  | glTexCoord2f GLfloat GLfloat
  | glPushMatrix
  | glTranslatef GLfloat GLfloat GLfloat
  | glRotated real real real real
  | glPopMatrix
  | glGenTextures GLuint
  | glGenFramebuffersEXT GLuint
  | glTexParameteri GLenum GLenum GLenum
  | glPixelStorei GLenum int
  | glTexImage2D GLenum int GLenum int int int GLenum GLenum bool
  | glDeleteTextures GLuint
  | SDL_free_pixels "int option"
  | SDL_free_texturedata

subsection \<open>Textures and renderer data\<close>

datatype SDL_PixelFormat =
    SDL_PIXELFORMAT_ARGB8888 | SDL_PIXELFORMAT_YV12 | SDL_PIXELFORMAT_IYUV
  | SDL_PIXELFORMAT_NV12 | SDL_PIXELFORMAT_NV21 | SDL_PIXELFORMAT_UYVY
  | SDL_PIXELFORMAT_other nat

datatype SDL_TextureAccess =
  SDL_TEXTUREACCESS_STATIC | SDL_TEXTUREACCESS_STREAMING | SDL_TEXTUREACCESS_TARGET

datatype SDL_ScaleMode = SDL_ScaleModeNearest | SDL_ScaleModeLinear | SDL_ScaleModeBest

record SDL_Rect =
  rect_x :: int
  rect_y :: int
  rect_w :: int
  rect_h :: int

text \<open>A node of the framebuffer list; the list itself is an Isabelle list, head first.\<close>

record GL_FBOList =
  fbo_w :: int
  fbo_h :: int
  FBO :: GLuint

text \<open>
  \<open>GL_TextureData\<close>. The owned pixel block \<open>pixels\<close> is identified by the number of
  bytes requested from \<open>SDL_calloc\<close> (\<open>None\<close> is the null pointer).
\<close>

record GL_TextureData =
  texture :: GLuint
  texw :: GLfloat
  texh :: GLfloat
  format :: GLenum
  formattype :: GLenum
  pixels :: "int option"
  pitch :: int
  locked_rect :: SDL_Rect
  yuv :: bool
  nv12 :: bool
  utexture :: GLuint
  vtexture :: GLuint
  fbo :: "GL_FBOList option"

record SDL_Texture =
  tex_format :: SDL_PixelFormat
  tex_access :: SDL_TextureAccess
  tex_w :: int
  tex_h :: int
  tex_scaleMode :: SDL_ScaleMode
  driverdata :: "GL_TextureData option"

text \<open>
  \<open>GL_RenderData\<close>, without the function table. \<open>gl_context\<close> is the field \<open>context\<close>;
  \<open>error_messages\<close> holds the \<open>errors\<close> messages recorded by the debug callback;
  \<open>shaders\<close> says whether the shader context pointer is non-null.
\<close>

record GL_RenderData =
  gl_context :: "nat option"
  debug_enabled :: bool
  GL_ARB_debug_output_supported :: bool
  error_messages :: "string list"
  textype :: GLenum
  GL_ARB_texture_non_power_of_two_supported :: bool
  GL_ARB_texture_rectangle_supported :: bool
  GL_EXT_framebuffer_object_supported :: bool
  framebuffers :: "GL_FBOList list"
  shaders :: bool

subsection \<open>Error checking and renderer activation\<close>

text \<open>
  The value \<open>GL_CheckError\<close> (the macro over \<open>GL_CheckAllErrors\<close>) returns: 0 at once
  when the context is not a debug context; otherwise -1 exactly when the driver has
  reported an error since the errors were last cleared. For the executor, whether it has
  is an input of the run; \<open>GL_CheckAllErrors\<close> below is the function with the state it
  reads and changes.
\<close>

definition GL_CheckError :: "GL_RenderData \<Rightarrow> bool \<Rightarrow> int" where
  "GL_CheckError data reported =
     (if \<not> debug_enabled data then 0 else if reported then - 1 else 0)"

text \<open>
  The state of the video subsystem and the driver that \<open>GL_ActivateRenderer\<close> touches:
  the context that is current (\<open>SDL_GL_GetCurrentContext\<close>), whether
  \<open>SDL_GL_MakeCurrent\<close> succeeds, and the error codes \<open>glGetError\<close> has pending.
\<close>

record gl_world =
  current_context :: "nat option"
  makecurrent_succeeds :: bool
  pending_gl_errors :: "nat list"

definition GL_ClearErrors :: "GL_RenderData \<Rightarrow> gl_world \<Rightarrow> GL_RenderData \<times> gl_world" where
  "GL_ClearErrors data world =
     (if \<not> debug_enabled data then (data, world)
      else if GL_ARB_debug_output_supported data then
        (if error_messages data \<noteq> [] then (data\<lparr>error_messages := []\<rparr>, world)
         else (data, world))
      else (data, world\<lparr>pending_gl_errors := []\<rparr>))"

definition GL_ActivateRenderer ::
  "GL_RenderData \<Rightarrow> gl_world \<Rightarrow> int \<times> GL_RenderData \<times> gl_world" where
  "GL_ActivateRenderer data world =
     (if current_context world \<noteq> gl_context data then
        (if \<not> makecurrent_succeeds world then (- 1, data, world)
         else (case GL_ClearErrors data (world\<lparr>current_context := gl_context data\<rparr>) of
                 (data', world') \<Rightarrow> (0, data', world')))
      else (case GL_ClearErrors data world of (data', world') \<Rightarrow> (0, data', world')))"

text \<open>
  An error the driver raises during a call: the code \<open>glGetError\<close> will return for it and
  the message handed to the debug callback. The callback \<open>GL_HandleDebugMessage\<close> is
  installed exactly in a debug context with \<open>GL_ARB_debug_output\<close> and appends the
  message to \<open>error_messages\<close> (the model leaves out a failing \<open>SDL_realloc\<close> there).
\<close>

type_synonym driver_error = "nat \<times> string"

definition driver_reports ::
  "driver_error list \<Rightarrow> GL_RenderData \<Rightarrow> gl_world \<Rightarrow> GL_RenderData \<times> gl_world" where
  "driver_reports errs data world =
     ((if debug_enabled data \<and> GL_ARB_debug_output_supported data
       then data\<lparr>error_messages := error_messages data @ map snd errs\<rparr> else data),
      world\<lparr>pending_gl_errors := pending_gl_errors world @ map fst errs\<rparr>)"

text \<open>
  \<open>GL_CheckAllErrors\<close> (lines 216 to 251) with the state it changes: the value returned,
  the renderer data and the driver state.
\<close>

definition GL_CheckAllErrors ::
  "GL_RenderData \<Rightarrow> gl_world \<Rightarrow> int \<times> GL_RenderData \<times> gl_world" where
  "GL_CheckAllErrors data world =
     (if \<not> debug_enabled data then (0, data, world)
      else if GL_ARB_debug_output_supported data then
        (if error_messages data \<noteq> [] then
           (case GL_ClearErrors data world of (data', world') \<Rightarrow> (- 1, data', world'))
         else (0, data, world))
      else
        (if pending_gl_errors world \<noteq> [] then (- 1, data, world\<lparr>pending_gl_errors := []\<rparr>)
         else (0, data, world)))"

text \<open>A call of \<open>GL_CheckError\<close> after driver calls during which \<open>errs\<close> were raised.\<close>

definition GL_CheckError_after ::
  "driver_error list \<Rightarrow> GL_RenderData \<Rightarrow> gl_world \<Rightarrow> int \<times> GL_RenderData \<times> gl_world" where
  "GL_CheckError_after errs data world =
     (case driver_reports errs data world of (data', world') \<Rightarrow> GL_CheckAllErrors data' world')"

text \<open>No error is recorded for the renderer: a call of \<open>GL_CheckError\<close> would return 0.\<close>

definition no_error_recorded :: "GL_RenderData \<Rightarrow> gl_world \<Rightarrow> bool" where
  "no_error_recorded data world \<longleftrightarrow>
     (if \<not> debug_enabled data then True
      else if GL_ARB_debug_output_supported data then error_messages data = []
      else pending_gl_errors world = [])"

subsection \<open>Creating a texture\<close>

definition INT_MAX :: int where
  "INT_MAX = 2147483647"

text \<open>
  The range of a C \<open>int\<close>, and \<open>+\<close> and \<open>*\<close> on \<open>int\<close> operands: no result (\<open>None\<close>) where
  the mathematical result is outside the range.
\<close>

definition int_range :: "int \<Rightarrow> bool" where
  "int_range i \<longleftrightarrow> - INT_MAX - 1 \<le> i \<and> i \<le> INT_MAX"

definition int_add :: "int \<Rightarrow> int \<Rightarrow> int option" where
  "int_add a b = (if int_range (a + b) then Some (a + b) else None)"

definition int_mul :: "int \<Rightarrow> int \<Rightarrow> int option" where
  "int_mul a b = (if int_range (a * b) then Some (a * b) else None)"

text \<open>
  \<open>power_of_2\<close>: \<open>value\<close> starts at 1 and is shifted left while it is below \<open>input\<close>.
  Shifting a value above \<open>INT_MAX / 2\<close> overflows the C \<open>int\<close>; the loop has no result
  then (\<open>None\<close>). The test \<open>0 < value\<close> holds on every iteration that starts from 1.
\<close>

function power_of_2_loop :: "int \<Rightarrow> int \<Rightarrow> int option" where
  "power_of_2_loop value input =
     (if value < input then
        (if 0 < value \<and> 2 * value \<le> INT_MAX then power_of_2_loop (2 * value) input
         else None)
      else Some value)"
  by pat_completeness auto
termination
  by (relation "measure (\<lambda>(value, input). nat (INT_MAX - value))") auto

declare power_of_2_loop.simps [simp del]

definition power_of_2 :: "int \<Rightarrow> int option" where
  "power_of_2 input = power_of_2_loop 1 input"

fun convert_format :: "platform \<Rightarrow> SDL_PixelFormat \<Rightarrow> (GLenum \<times> GLenum \<times> GLenum) option" where
  "convert_format plat SDL_PIXELFORMAT_ARGB8888 =
     Some (GL_RGBA8, GL_BGRA, GL_UNSIGNED_INT_8_8_8_8_REV)"
| "convert_format plat SDL_PIXELFORMAT_YV12 = Some (GL_LUMINANCE, GL_LUMINANCE, GL_UNSIGNED_BYTE)"
| "convert_format plat SDL_PIXELFORMAT_IYUV = Some (GL_LUMINANCE, GL_LUMINANCE, GL_UNSIGNED_BYTE)"
| "convert_format plat SDL_PIXELFORMAT_NV12 = Some (GL_LUMINANCE, GL_LUMINANCE, GL_UNSIGNED_BYTE)"
| "convert_format plat SDL_PIXELFORMAT_NV21 = Some (GL_LUMINANCE, GL_LUMINANCE, GL_UNSIGNED_BYTE)"
| "convert_format plat SDL_PIXELFORMAT_UYVY =
     (if plat = MACOSX then Some (GL_RGB8, GL_YCBCR_422_APPLE, GL_UNSIGNED_SHORT_8_8_APPLE)
      else None)"
| "convert_format plat (SDL_PIXELFORMAT_other n) = None"

text \<open>
  What the outside world decides during \<open>GL_CreateTexture\<close>: whether the three
  allocations succeed, the names the driver generates, and the errors the driver raises
  during the calls that precede each of the four calls of \<open>GL_CheckError\<close>: during
  \<open>glGenFramebuffersEXT\<close> (if it is called), during \<open>glGenTextures\<close>, during the calls
  that set up the primary texture, and during those that set up the auxiliary textures.
\<close>

record create_env =
  calloc_data_ok :: bool
  calloc_pixels_ok :: bool
  malloc_fbo_ok :: bool
  gen_fbo :: GLuint
  gen_texture :: GLuint
  gen_utexture :: GLuint
  gen_vtexture :: GLuint
  fbo_errors :: "driver_error list"
  gen_errors :: "driver_error list"
  teximage_errors :: "driver_error list"
  plane_errors :: "driver_error list"

datatype create_error =
    RenderTargetsNotSupported | TextureFormatNotSupported | OutOfMemory | GLError
  | NoResult

fun find_fbo :: "GL_FBOList list \<Rightarrow> int \<Rightarrow> int \<Rightarrow> GL_FBOList option" where
  "find_fbo [] w h = None"
| "find_fbo (f # fs) w h =
     (if fbo_w f \<noteq> w \<or> fbo_h f \<noteq> h then find_fbo fs w h else Some f)"

definition GL_GetFBO ::
  "create_env \<Rightarrow> GL_RenderData \<Rightarrow> int \<Rightarrow> int \<Rightarrow> GL_FBOList option \<times> GL_RenderData \<times> GLcall list"
where
  "GL_GetFBO env data w h =
     (case find_fbo (framebuffers data) w h of
        Some f \<Rightarrow> (Some f, data, [])
      | None \<Rightarrow>
          if malloc_fbo_ok env then
            (let f = \<lparr>fbo_w = w, fbo_h = h, FBO = gen_fbo env\<rparr>
             in (Some f, data\<lparr>framebuffers := f # framebuffers data\<rparr>,
                 [glGenFramebuffersEXT (gen_fbo env)]))
          else (None, data, []))"

text \<open>
  The size passed to \<open>SDL_calloc\<close> for a streaming texture (lines 690 to 700). The
  products are computed on \<open>int\<close> and have no result when they overflow; \<open>size\<close> is a
  \<open>size_t\<close>, taken to be 64 bits wide, to which each \<open>int\<close> is converted before it is
  added. \<open>chroma_size\<close> is \<open>2 * ((h + 1) / 2) * ((pitch + 1) / 2)\<close>.
\<close>

definition size_t_of_int :: "int \<Rightarrow> int" where
  "size_t_of_int i = i mod 2 ^ 64"

definition chroma_size :: "int \<Rightarrow> int \<Rightarrow> int option" where
  "chroma_size h pitch0 =
     (case int_add h 1 of
        None \<Rightarrow> None
      | Some h1 \<Rightarrow>
          (case int_add pitch0 1 of
             None \<Rightarrow> None
           | Some pitch1 \<Rightarrow>
               (case int_mul 2 (h1 sdiv 2) of
                  None \<Rightarrow> None
                | Some rows2 \<Rightarrow> int_mul rows2 (pitch1 sdiv 2))))"

definition streaming_size :: "SDL_PixelFormat \<Rightarrow> int \<Rightarrow> int \<Rightarrow> int option" where
  "streaming_size fmt h pitch0 =
     (case int_mul h pitch0 of
        None \<Rightarrow> None
      | Some plane \<Rightarrow>
          (case (if fmt = SDL_PIXELFORMAT_YV12 \<or> fmt = SDL_PIXELFORMAT_IYUV
                 then map_option (\<lambda>c. size_t_of_int (size_t_of_int plane + size_t_of_int c))
                        (chroma_size h pitch0)
                 else Some (size_t_of_int plane)) of
             None \<Rightarrow> None
           | Some size1 \<Rightarrow>
               (if fmt = SDL_PIXELFORMAT_NV12 \<or> fmt = SDL_PIXELFORMAT_NV21
                then map_option (\<lambda>c. size_t_of_int (size1 + size_t_of_int c))
                       (chroma_size h pitch0)
                else Some size1)))"

text \<open>
  The pitch and the size of the pixel block (lines 687 to 700): \<open>(0, None)\<close> for a
  texture that is not streaming. The macro \<open>SDL_BYTESPERPIXEL\<close> (SDL_pixels.h) is a
  parameter, taken to yield an \<open>int\<close>.
\<close>

definition streaming_block ::
  "(SDL_PixelFormat \<Rightarrow> int) \<Rightarrow> SDL_Texture \<Rightarrow> (int \<times> int option) option" where
  "streaming_block SDL_BYTESPERPIXEL t =
     (if tex_access t = SDL_TEXTUREACCESS_STREAMING then
        (case int_mul (tex_w t) (SDL_BYTESPERPIXEL (tex_format t)) of
           None \<Rightarrow> None
         | Some pitch0 \<Rightarrow>
             map_option (\<lambda>size. (pitch0, Some size))
               (streaming_size (tex_format t) (tex_h t) pitch0))
      else Some (0, None))"

text \<open>
  The three sizing policies (lines 725 to 740): the allocated width and height and the
  two scale factors \<open>texw\<close>, \<open>texh\<close>. The factors are computed in single precision:
  \<open>(GLfloat) texture_w\<close> is a conversion, and in \<open>(GLfloat) (texture->w) / texture_w\<close> the
  \<open>int\<close> divisor is converted before the division.
\<close>

definition texture_dims ::
  "GL_RenderData \<Rightarrow> int \<Rightarrow> int \<Rightarrow> (int \<times> int \<times> GLfloat \<times> GLfloat) option" where
  "texture_dims renderdata w h =
     (if GL_ARB_texture_non_power_of_two_supported renderdata then Some (w, h, 1, 1)
      else if GL_ARB_texture_rectangle_supported renderdata then
        Some (w, h, float32_of_int w, float32_of_int h)
      else
        (case power_of_2 w of
           None \<Rightarrow> None
         | Some texture_w \<Rightarrow>
             (case power_of_2 h of
                None \<Rightarrow> None
              | Some texture_h \<Rightarrow>
                  Some (texture_w, texture_h,
                        float32_div (float32_of_int w) (float32_of_int texture_w),
                        float32_div (float32_of_int h) (float32_of_int texture_h)))))"

text \<open>
  The calls that set up the primary texture (lines 745 to 792), from \<open>glEnable\<close> to
  \<open>glDisable\<close>. \<open>GL_TRUE\<close> and \<open>GL_FALSE\<close> are written 1 and 0.
\<close>

definition primary_image_calls ::
  "platform \<Rightarrow> GLenum \<Rightarrow> GLenum \<Rightarrow> GLenum \<Rightarrow> GLenum \<Rightarrow> GLenum \<Rightarrow> int \<Rightarrow> int \<Rightarrow>
   (SDL_PixelFormat \<Rightarrow> int) \<Rightarrow> SDL_Texture \<Rightarrow> int \<Rightarrow> GLuint \<Rightarrow> GLcall list" where
  "primary_image_calls plat ttype scaleMode internalFormat fmt ftype texture_w texture_h
       SDL_BYTESPERPIXEL t pitch0 name =
     [glEnable ttype, glBindTexture ttype name,
      glTexParameteri ttype GL_TEXTURE_MIN_FILTER scaleMode,
      glTexParameteri ttype GL_TEXTURE_MAG_FILTER scaleMode] @
     (if ttype \<noteq> GL_TEXTURE_RECTANGLE_ARB then
        [glTexParameteri ttype GL_TEXTURE_WRAP_S GL_CLAMP_TO_EDGE,
         glTexParameteri ttype GL_TEXTURE_WRAP_T GL_CLAMP_TO_EDGE]
      else []) @
     (if plat = MACOSX then
        [if tex_access t = SDL_TEXTUREACCESS_STREAMING
         then glTexParameteri ttype GL_TEXTURE_STORAGE_HINT_APPLE GL_STORAGE_SHARED_APPLE
         else glTexParameteri ttype GL_TEXTURE_STORAGE_HINT_APPLE GL_STORAGE_CACHED_APPLE]
      else []) @
     (if plat = MACOSX \<and> tex_access t = SDL_TEXTUREACCESS_STREAMING \<and>
         tex_format t = SDL_PIXELFORMAT_ARGB8888 \<and> tex_w t smod 8 = 0 then
        [glPixelStorei GL_UNPACK_CLIENT_STORAGE_APPLE 1,
         glPixelStorei GL_UNPACK_ALIGNMENT 1,
         glPixelStorei GL_UNPACK_ROW_LENGTH (pitch0 sdiv SDL_BYTESPERPIXEL (tex_format t)),
         glTexImage2D ttype 0 internalFormat texture_w texture_h 0 fmt ftype True,
         glPixelStorei GL_UNPACK_CLIENT_STORAGE_APPLE 0]
      else [glTexImage2D ttype 0 internalFormat texture_w texture_h 0 fmt ftype False]) @
     [glDisable ttype]"

text \<open>
  The size \<open>(texture_w+1)/2\<close>, \<open>(texture_h+1)/2\<close> of an auxiliary texture; the additions
  are computed on \<open>int\<close>.
\<close>

definition plane_dims :: "int \<Rightarrow> int \<Rightarrow> (int \<times> int) option" where
  "plane_dims texture_w texture_h =
     (case int_add texture_w 1 of
        None \<Rightarrow> None
      | Some w1 \<Rightarrow>
          (case int_add texture_h 1 of
             None \<Rightarrow> None
           | Some h1 \<Rightarrow> Some (w1 sdiv 2, h1 sdiv 2)))"

text \<open>
  The two auxiliary textures of YV12 and IYUV (lines 797 to 830); \<open>plane_w\<close> and
  \<open>plane_h\<close> are the halved sizes.
\<close>

definition yuv_plane_calls ::
  "GLenum \<Rightarrow> GLenum \<Rightarrow> GLenum \<Rightarrow> GLenum \<Rightarrow> GLenum \<Rightarrow> int \<Rightarrow> int \<Rightarrow> GLuint \<Rightarrow> GLuint \<Rightarrow>
   GLcall list" where
  "yuv_plane_calls ttype scaleMode internalFormat fmt ftype plane_w plane_h uname vname =
     [glGenTextures uname, glGenTextures vname, glEnable ttype,
      glBindTexture ttype uname,
      glTexParameteri ttype GL_TEXTURE_MIN_FILTER scaleMode,
      glTexParameteri ttype GL_TEXTURE_MAG_FILTER scaleMode,
      glTexParameteri ttype GL_TEXTURE_WRAP_S GL_CLAMP_TO_EDGE,
      glTexParameteri ttype GL_TEXTURE_WRAP_T GL_CLAMP_TO_EDGE,
      glTexImage2D ttype 0 internalFormat plane_w plane_h 0 fmt ftype False,
      glBindTexture ttype vname,
      glTexParameteri ttype GL_TEXTURE_MIN_FILTER scaleMode,
      glTexParameteri ttype GL_TEXTURE_MAG_FILTER scaleMode,
      glTexParameteri ttype GL_TEXTURE_WRAP_S GL_CLAMP_TO_EDGE,
      glTexParameteri ttype GL_TEXTURE_WRAP_T GL_CLAMP_TO_EDGE,
      glTexImage2D ttype 0 internalFormat plane_w plane_h 0 fmt ftype False,
      glDisable ttype]"

text \<open>The auxiliary texture of NV12 and NV21 (lines 832 to 851).\<close>

definition nv12_plane_calls ::
  "GLenum \<Rightarrow> GLenum \<Rightarrow> int \<Rightarrow> int \<Rightarrow> GLuint \<Rightarrow> GLcall list" where
  "nv12_plane_calls ttype scaleMode plane_w plane_h uname =
     [glGenTextures uname, glEnable ttype,
      glBindTexture ttype uname,
      glTexParameteri ttype GL_TEXTURE_MIN_FILTER scaleMode,
      glTexParameteri ttype GL_TEXTURE_MAG_FILTER scaleMode,
      glTexParameteri ttype GL_TEXTURE_WRAP_S GL_CLAMP_TO_EDGE,
      glTexParameteri ttype GL_TEXTURE_WRAP_T GL_CLAMP_TO_EDGE,
      glTexImage2D ttype 0 GL_LUMINANCE_ALPHA plane_w plane_h 0
        GL_LUMINANCE_ALPHA GL_UNSIGNED_BYTE False,
      glDisable ttype]"

text \<open>
  \<open>GL_CreateTexture\<close>. It starts with \<open>GL_ActivateRenderer\<close>, whose result it ignores,
  and calls \<open>GL_CheckError\<close> four times, ignoring the result of the first call. The
  result of a successful call is the renderer data (its framebuffer list may have grown,
  its recorded errors are cleared), the driver state, the texture with its new
  \<open>driverdata\<close>, and the calls made to the driver. A failed call reports its error only.
  \<open>NoResult\<close> stands for a call in which an \<open>int\<close> computation overflows. The texture
  target and the extension flags are read from \<open>renderdata\<close>, which no step changes in
  these fields.
\<close>

definition GL_CreateTexture ::
  "platform \<Rightarrow> (SDL_PixelFormat \<Rightarrow> int) \<Rightarrow> create_env \<Rightarrow> GL_RenderData \<Rightarrow> gl_world \<Rightarrow>
   SDL_Texture \<Rightarrow> create_error + (GL_RenderData \<times> gl_world \<times> SDL_Texture \<times> GLcall list)" where
  "GL_CreateTexture plat SDL_BYTESPERPIXEL env renderdata world t =
     (case GL_ActivateRenderer renderdata world of
        (activated, renderdata0, world0) \<Rightarrow>
      if tex_access t = SDL_TEXTUREACCESS_TARGET \<and>
         \<not> GL_EXT_framebuffer_object_supported renderdata
      then Inl RenderTargetsNotSupported
      else case convert_format plat (tex_format t) of
        None \<Rightarrow> Inl TextureFormatNotSupported
      | Some (internalFormat, fmt, ftype) \<Rightarrow>
        if \<not> calloc_data_ok env then Inl OutOfMemory
        else case streaming_block SDL_BYTESPERPIXEL t of
          None \<Rightarrow> Inl NoResult
        | Some (pitch0, pixels0) \<Rightarrow>
          if pixels0 \<noteq> None \<and> \<not> calloc_pixels_ok env then Inl OutOfMemory
          else
            case (if tex_access t = SDL_TEXTUREACCESS_TARGET
                  then GL_GetFBO env renderdata0 (tex_w t) (tex_h t)
                  else (None, renderdata0, [])) of
              (fbo0, renderdata1, fbo_calls) \<Rightarrow>
            case GL_CheckError_after (if fbo_calls = [] then [] else fbo_errors env)
                   renderdata1 world0 of
              (unchecked, renderdata2, world1) \<Rightarrow>
            case GL_CheckError_after (gen_errors env) renderdata2 world1 of
              (ret1, renderdata3, world2) \<Rightarrow>
            if ret1 < 0 then Inl GLError
            else
              case texture_dims renderdata (tex_w t) (tex_h t) of
                None \<Rightarrow> Inl NoResult
              | Some (texture_w, texture_h, tw, th) \<Rightarrow>
                let scaleMode = (if tex_scaleMode t = SDL_ScaleModeNearest
                                 then GL_NEAREST else GL_LINEAR);
                    ttype = textype renderdata;
                    calls1 = primary_image_calls plat ttype scaleMode internalFormat fmt
                               ftype texture_w texture_h SDL_BYTESPERPIXEL t pitch0
                               (gen_texture env)
                in
                case GL_CheckError_after (teximage_errors env) renderdata3 world2 of
                  (ret2, renderdata4, world3) \<Rightarrow>
                if ret2 < 0 then Inl GLError
                else
                  let is_yuv = (tex_format t = SDL_PIXELFORMAT_YV12 \<or>
                                tex_format t = SDL_PIXELFORMAT_IYUV);
                      is_nv12 = (tex_format t = SDL_PIXELFORMAT_NV12 \<or>
                                 tex_format t = SDL_PIXELFORMAT_NV21)
                  in
                  case (if is_yuv \<or> is_nv12 then plane_dims texture_w texture_h
                        else Some (0, 0)) of
                    None \<Rightarrow> Inl NoResult
                  | Some (plane_w, plane_h) \<Rightarrow>
                    let calls2 = (if is_yuv
                                  then yuv_plane_calls ttype scaleMode internalFormat fmt ftype
                                         plane_w plane_h (gen_utexture env) (gen_vtexture env)
                                  else []);
                        calls3 = (if is_nv12
                                  then nv12_plane_calls ttype scaleMode plane_w plane_h
                                         (gen_utexture env)
                                  else []);
                        data = \<lparr>texture = gen_texture env, texw = tw, texh = th,
                                format = fmt, formattype = ftype,
                                pixels = pixels0, pitch = pitch0,
                                locked_rect = \<lparr>rect_x = 0, rect_y = 0, rect_w = 0, rect_h = 0\<rparr>,
                                yuv = is_yuv, nv12 = is_nv12,
                                utexture = (if is_yuv \<or> is_nv12 then gen_utexture env else 0),
                                vtexture = (if is_yuv then gen_vtexture env else 0),
                                fbo = fbo0\<rparr>
                    in
                    case GL_CheckError_after (plane_errors env) renderdata4 world3 of
                      (ret3, renderdata5, world4) \<Rightarrow>
                    if ret3 < 0 then Inl GLError
                    else Inr (renderdata5, world4, t\<lparr>driverdata := Some data\<rparr>,
                              fbo_calls @ [glGenTextures (gen_texture env)] @ calls1 @
                              calls2 @ calls3))"

text \<open>
  Reading a list of calls: the texture names generated, and the images allocated, each
  with the texture it is allocated for. \<open>glTexImage2D\<close> allocates the image of the texture
  that the latest \<open>glBindTexture\<close> has bound to its target in the active texture unit
  (\<open>None\<close> if the list has bound none there).
\<close>

fun generated_name :: "GLcall \<Rightarrow> GLuint list" where
  "generated_name (glGenTextures n) = [n]"
| "generated_name c = []"

definition generated_textures :: "GLcall list \<Rightarrow> GLuint list" where
  "generated_textures calls = concat (map generated_name calls)"

fun images_from ::
  "GLenum \<Rightarrow> (GLenum \<times> GLenum \<Rightarrow> GLuint option) \<Rightarrow> GLcall list \<Rightarrow>
   (GLuint option \<times> int \<times> int) list" where
  "images_from unit bound [] = []"
| "images_from unit bound (glActiveTextureARB u # cs) = images_from u bound cs"
| "images_from unit bound (glBindTexture target n # cs) =
     images_from unit (bound((unit, target) := Some n)) cs"
| "images_from unit bound (glTexImage2D target level internalFormat w h border fmt ftype p # cs) =
     (bound (unit, target), w, h) # images_from unit bound cs"
| "images_from unit bound (c # cs) = images_from unit bound cs"

definition texture_images :: "GLcall list \<Rightarrow> (GLuint option \<times> int \<times> int) list" where
  "texture_images calls = images_from GL_TEXTURE0_ARB (\<lambda>target. None) calls"

text \<open>The number of chroma planes kept in textures of their own, by pixel format.\<close>

fun auxiliary_planes :: "SDL_PixelFormat \<Rightarrow> nat" where
  "auxiliary_planes SDL_PIXELFORMAT_YV12 = 2"
| "auxiliary_planes SDL_PIXELFORMAT_IYUV = 2"
| "auxiliary_planes SDL_PIXELFORMAT_NV12 = 1"
| "auxiliary_planes SDL_PIXELFORMAT_NV21 = 1"
| "auxiliary_planes f = 0"

text \<open>
  The auxiliary textures a texture owns according to its backend data, as the executor
  reads it (\<open>SetCopyState\<close>, lines 1261 to 1270).
\<close>

definition auxiliary_names :: "GL_TextureData \<Rightarrow> GLuint list" where
  "auxiliary_names data =
     (if yuv data then [utexture data, vtexture data]
      else if nv12 data then [utexture data] else [])"

text \<open>The texture data a call of \<open>GL_CreateTexture\<close> leaves behind, if it succeeds.\<close>

definition created_data ::
  "create_error + (GL_RenderData \<times> gl_world \<times> SDL_Texture \<times> GLcall list) \<Rightarrow>
   GL_TextureData option" where
  "created_data r =
     (case r of Inl e \<Rightarrow> None | Inr (renderdata, world, t, calls) \<Rightarrow> driverdata t)"

text \<open>\<open>p\<close> is the smallest power of two that is at least \<open>n\<close>.\<close>

definition smallest_power_of_two_ge :: "int \<Rightarrow> int \<Rightarrow> bool" where
  "smallest_power_of_two_ge p n \<longleftrightarrow>
     (\<exists>k::nat. p = 2 ^ k) \<and> n \<le> p \<and> (\<forall>j::nat. n \<le> 2 ^ j \<longrightarrow> p \<le> 2 ^ j)"

text \<open>
  Requests for which creation has a result: a width and a height of at most \<open>2^30\<close>, up
  to which \<open>power_of_2\<close> has a result, and for a streaming texture a size of at most
  16384 by 16384 pixels of at most four bytes each, which keeps the pitch and the size of
  the pixel block in the range of \<open>int\<close>. Nothing hinders the creation when the format is
  supported (and render targets are, for a target), the allocations succeed and the
  driver raises no error during the checked calls.
\<close>

definition request_in_range :: "(SDL_PixelFormat \<Rightarrow> int) \<Rightarrow> SDL_Texture \<Rightarrow> bool" where
  "request_in_range SDL_BYTESPERPIXEL t \<longleftrightarrow>
     0 \<le> tex_w t \<and> tex_w t \<le> 2 ^ 30 \<and> 0 \<le> tex_h t \<and> tex_h t \<le> 2 ^ 30 \<and>
     (tex_access t = SDL_TEXTUREACCESS_STREAMING \<longrightarrow>
        tex_w t \<le> 16384 \<and> tex_h t \<le> 16384 \<and>
        0 \<le> SDL_BYTESPERPIXEL (tex_format t) \<and> SDL_BYTESPERPIXEL (tex_format t) \<le> 4)"

definition creation_unhindered ::
  "platform \<Rightarrow> create_env \<Rightarrow> GL_RenderData \<Rightarrow> SDL_Texture \<Rightarrow> bool" where
  "creation_unhindered plat env renderdata t \<longleftrightarrow>
     (tex_access t \<noteq> SDL_TEXTUREACCESS_TARGET \<or>
      GL_EXT_framebuffer_object_supported renderdata) \<and>
     convert_format plat (tex_format t) \<noteq> None \<and>
     calloc_data_ok env \<and> calloc_pixels_ok env \<and>
     gen_errors env = [] \<and> teximage_errors env = [] \<and> plane_errors env = []"

text \<open>
  Concrete inputs for the examples: a renderer on a driver with framebuffer objects but
  neither arbitrary-size nor rectangle textures, the same renderer on a driver with
  rectangle textures and on one with arbitrary-size textures, an outside world in which
  every allocation succeeds and no error is raised, and the bytes per pixel that
  \<open>SDL_BYTESPERPIXEL\<close> yields for the formats named in this file.
\<close>

definition example_renderdata :: GL_RenderData where
  "example_renderdata =
     \<lparr>gl_context = Some 1, debug_enabled = False, GL_ARB_debug_output_supported = False,
      error_messages = [], textype = GL_TEXTURE_2D,
      GL_ARB_texture_non_power_of_two_supported = False,
      GL_ARB_texture_rectangle_supported = False,
      GL_EXT_framebuffer_object_supported = True,
      framebuffers = [], shaders = True\<rparr>"

definition example_rectangle_renderdata :: GL_RenderData where
  "example_rectangle_renderdata =
     example_renderdata\<lparr>textype := GL_TEXTURE_RECTANGLE_ARB,
                         GL_ARB_texture_rectangle_supported := True\<rparr>"

definition example_arbitrary_renderdata :: GL_RenderData where
  "example_arbitrary_renderdata =
     example_renderdata\<lparr>GL_ARB_texture_non_power_of_two_supported := True\<rparr>"

definition example_env :: create_env where
  "example_env =
     \<lparr>calloc_data_ok = True, calloc_pixels_ok = True, malloc_fbo_ok = True,
      gen_fbo = 1, gen_texture = 1, gen_utexture = 2, gen_vtexture = 3,
      fbo_errors = [], gen_errors = [], teximage_errors = [], plane_errors = []\<rparr>"

fun example_bytesperpixel :: "SDL_PixelFormat \<Rightarrow> int" where
  "example_bytesperpixel SDL_PIXELFORMAT_ARGB8888 = 4"
| "example_bytesperpixel SDL_PIXELFORMAT_UYVY = 2"
| "example_bytesperpixel f = 1"

definition example_texture ::
  "SDL_PixelFormat \<Rightarrow> SDL_TextureAccess \<Rightarrow> int \<Rightarrow> int \<Rightarrow> SDL_Texture" where
  "example_texture f a w h =
     \<lparr>tex_format = f, tex_access = a, tex_w = w, tex_h = h,
      tex_scaleMode = SDL_ScaleModeLinear, driverdata = None\<rparr>"

subsection \<open>Destroying a texture\<close>

definition GL_DestroyTexture ::
  "GL_RenderData \<Rightarrow> gl_world \<Rightarrow> SDL_Texture \<Rightarrow>
   GL_RenderData \<times> gl_world \<times> SDL_Texture \<times> GLcall list" where
  "GL_DestroyTexture renderdata world t =
     (case GL_ActivateRenderer renderdata world of
        (ret, renderdata', world') \<Rightarrow>
          (case driverdata t of
             None \<Rightarrow> (renderdata', world', t, [])
           | Some data \<Rightarrow>
               (renderdata', world', t\<lparr>driverdata := None\<rparr>,
                (if texture data \<noteq> 0 then [glDeleteTextures (texture data)] else []) @
                (if yuv data
                 then [glDeleteTextures (utexture data), glDeleteTextures (vtexture data)]
                 else []) @
                [SDL_free_pixels (pixels data), SDL_free_texturedata])))"

text \<open>
  A renderer in a debug context with one recorded error message, while another context
  is current.
\<close>

definition example_debug_renderdata :: GL_RenderData where
  "example_debug_renderdata =
     \<lparr>gl_context = Some 1, debug_enabled = True, GL_ARB_debug_output_supported = True,
      error_messages = [''GL_INVALID_VALUE''], textype = GL_TEXTURE_2D,
      GL_ARB_texture_non_power_of_two_supported = False,
      GL_ARB_texture_rectangle_supported = False,
      GL_EXT_framebuffer_object_supported = True,
      framebuffers = [], shaders = True\<rparr>"

definition example_world :: gl_world where
  "example_world =
     \<lparr>current_context = Some 2, makecurrent_succeeds = True, pending_gl_errors = []\<rparr>"

text \<open>
  The renderer is active: its context is current and no error is recorded for it.
\<close>

definition renderer_active :: "GL_RenderData \<Rightarrow> gl_world \<Rightarrow> bool" where
  "renderer_active data world \<longleftrightarrow>
     current_context world = gl_context data \<and>
     (if \<not> debug_enabled data then True
      else if GL_ARB_debug_output_supported data then error_messages data = []
      else pending_gl_errors world = [])"

subsection \<open>Queueing points and lines\<close>

record SDL_FPoint =
  point_x :: GLfloat
  point_y :: GLfloat

text \<open>
  The \<open>draw\<close> member of a command's data. Offsets into the vertex buffer count
  \<open>GLfloat\<close> slots (the byte offset of the source divided by \<open>sizeof (GLfloat)\<close>); a
  texture pointer is an address (\<open>None\<close> is NULL).
\<close>

record draw_command =
  draw_first :: nat
  draw_count :: nat
  draw_r :: Uint8
  draw_g :: Uint8
  draw_b :: Uint8
  draw_a :: Uint8
  draw_blend :: SDL_BlendMode
  draw_texture :: "nat option"

datatype queue_error = AllocationFailed | ReadOutsidePoints

text \<open>
  The loop of \<open>GL_QueueDrawPoints\<close> (lines 1032 to 1035), from index \<open>i\<close> on: the floats
  it stores through \<open>verts\<close>, in order. \<open>0.5f + points[i].x\<close> is a single-precision
  addition. Reading \<open>points[i]\<close> beyond the array is undefined (\<open>None\<close>).
\<close>

function queue_points_loop :: "SDL_FPoint list \<Rightarrow> nat \<Rightarrow> nat \<Rightarrow> GLfloat list option" where
  "queue_points_loop points count i =
     (if i < count then
        (if i < length points then
           (case queue_points_loop points count (Suc i) of
              None \<Rightarrow> None
            | Some verts \<Rightarrow>
                Some (float32_add (1 / 2) (point_x (points ! i)) #
                      float32_add (1 / 2) (point_y (points ! i)) # verts))
         else None)
      else Some [])"
  by pat_completeness auto
termination
  by (relation "measure (\<lambda>(points, count, i). count - i)") auto

declare queue_points_loop.simps [simp del]

text \<open>
  \<open>GL_QueueDrawPoints\<close>. The vertex allocator \<open>SDL_AllocateRenderVertices\<close> belongs to
  the front end; what it returns is a parameter: \<open>None\<close> for NULL, \<open>Some first\<close> for a
  block whose offset it has stored in the command. The result of a successful call is
  the command and the floats written to the block, in order.
\<close>

definition GL_QueueDrawPoints ::
  "nat option \<Rightarrow> draw_command \<Rightarrow> SDL_FPoint list \<Rightarrow> nat \<Rightarrow>
   queue_error + (draw_command \<times> GLfloat list)" where
  "GL_QueueDrawPoints allocated cmd points count =
     (case allocated of
        None \<Rightarrow> Inl AllocationFailed
      | Some first \<Rightarrow>
          (case queue_points_loop points count 0 of
             None \<Rightarrow> Inl ReadOutsidePoints
           | Some verts \<Rightarrow> Inr (cmd\<lparr>draw_first := first, draw_count := count\<rparr>, verts)))"

text \<open>
  The two floats queued for a point: its coordinates moved towards the pixel centre by
  a single-precision addition of 0.5.
\<close>

definition snapped :: "SDL_FPoint \<Rightarrow> GLfloat list" where
  "snapped pt = [float32_add (1 / 2) (point_x pt), float32_add (1 / 2) (point_y pt)]"

text \<open>The two entries of the renderer's function table (lines 397 and 398).\<close>

definition QueueDrawPoints ::
  "nat option \<Rightarrow> draw_command \<Rightarrow> SDL_FPoint list \<Rightarrow> nat \<Rightarrow>
   queue_error + (draw_command \<times> GLfloat list)" where
  "QueueDrawPoints = GL_QueueDrawPoints"

definition QueueDrawLines ::
  "nat option \<Rightarrow> draw_command \<Rightarrow> SDL_FPoint list \<Rightarrow> nat \<Rightarrow>
   queue_error + (draw_command \<times> GLfloat list)" where
  "QueueDrawLines = GL_QueueDrawPoints"

subsection \<open>Running the command queue\<close>

datatype SDL_RenderCommand =
    SDL_RENDERCMD_NO_OP
  | SDL_RENDERCMD_SETVIEWPORT SDL_Rect
  | SDL_RENDERCMD_SETCLIPRECT bool SDL_Rect
  | SDL_RENDERCMD_SETDRAWCOLOR Uint8 Uint8 Uint8 Uint8
  | SDL_RENDERCMD_CLEAR Uint8 Uint8 Uint8 Uint8
  | SDL_RENDERCMD_DRAW_POINTS draw_command
  | SDL_RENDERCMD_DRAW_LINES draw_command
  | SDL_RENDERCMD_FILL_RECTS draw_command
  | SDL_RENDERCMD_COPY draw_command
  | SDL_RENDERCMD_COPY_EX draw_command

datatype SDL_YUV_CONVERSION_MODE =
    SDL_YUV_CONVERSION_JPEG | SDL_YUV_CONVERSION_BT601 | SDL_YUV_CONVERSION_BT709
  | SDL_YUV_CONVERSION_AUTOMATIC

text \<open>The fields of \<open>SDL_Renderer\<close> that the executor reads.\<close>

record SDL_Renderer =
  renderer_viewport :: SDL_Rect
  renderer_clip_rect :: SDL_Rect
  renderer_clipping_enabled :: bool
  renderer_target :: "nat option"
  renderer_r :: Uint8
  renderer_g :: Uint8
  renderer_b :: Uint8
  renderer_a :: Uint8
  renderer_driverdata :: GL_RenderData

text \<open>
  What the executor takes from outside this file: the build platform, the drawable size
  of the window, the textures behind the texture pointers, the conversion mode
  \<open>SDL_GetYUVConversionModeForResolution\<close> chooses, the blend mode accessors, and
  whether the driver has reported an error by the end of the run.
\<close>

record run_env =
  env_platform :: platform
  drawable_size :: "int \<times> int"
  texture_at :: "nat \<Rightarrow> SDL_Texture"
  yuv_conversion_mode :: "int \<Rightarrow> int \<Rightarrow> SDL_YUV_CONVERSION_MODE"
  blend_accessors :: blendmode_accessors
  errors_reported :: bool

text \<open>
  The state the executor caches during a run: the local variables \<open>viewport\<close>,
  \<open>bound_texture\<close>, \<open>blend\<close>, \<open>shader\<close>, \<open>cliprect_enabled\<close>, \<open>cliprect\<close>, \<open>clear_color\<close>,
  \<open>draw_color\<close> and \<open>texturing\<close> of \<open>GL_RunCommandQueue\<close>.
\<close>

record GL_DrawStateCache =
  viewport :: SDL_Rect
  bound_texture :: "nat option"
  blend :: SDL_BlendMode
  shader :: GL_Shader
  cliprect_enabled :: bool
  cliprect :: SDL_Rect
  clear_color :: Uint32
  draw_color :: Uint32
  texturing :: bool

text \<open>
  \<open>inv255f = 1.0f / 255.0f\<close> and the colour component \<open>(GLfloat) c * inv255f\<close>, both in
  single precision.
\<close>

definition inv255f :: GLfloat where
  "inv255f = float32_div 1 255"

text \<open>\<open>((a << 24) | (r << 16) | (g << 8) | b)\<close> as a \<open>Uint32\<close>.\<close>

definition pack_color :: "Uint8 \<Rightarrow> Uint8 \<Rightarrow> Uint8 \<Rightarrow> Uint8 \<Rightarrow> Uint32" where
  "pack_color r g b a =
     (push_bit 24 (ucast a) OR push_bit 16 (ucast r) OR push_bit 8 (ucast g) OR ucast b)"

definition color4f :: "Uint8 \<Rightarrow> GLfloat" where
  "color4f c = float32_mul (float32_of_int (uint c)) inv255f"

text \<open>\<open>SetDrawState\<close> (lines 1163 to 1209), one definition for each of its four blocks.\<close>

definition set_draw_color ::
  "draw_command \<Rightarrow> GL_DrawStateCache \<Rightarrow> GLcall list \<times> GL_DrawStateCache" where
  "set_draw_color cmd st =
     (let r = draw_r cmd; g = draw_g cmd; b = draw_b cmd; a = draw_a cmd;
          color = pack_color r g b a
      in if color \<noteq> draw_color st
         then ([glColor4f (color4f r) (color4f g) (color4f b) (color4f a)],
               st\<lparr>draw_color := color\<rparr>)
         else ([], st))"

definition set_blend ::
  "blendmode_accessors \<Rightarrow> draw_command \<Rightarrow> GL_DrawStateCache \<Rightarrow> GLcall list \<times> GL_DrawStateCache"
where
  "set_blend acc cmd st =
     (let blend0 = draw_blend cmd
      in if blend0 \<noteq> blend st
         then ((if blend0 = SDL_BLENDMODE_NONE then [glDisable GL_BLEND]
                else [glEnable GL_BLEND,
                      glBlendFuncSeparate
                        (GetBlendFunc (SDL_GetBlendModeSrcColorFactor acc blend0))
                        (GetBlendFunc (SDL_GetBlendModeDstColorFactor acc blend0))
                        (GetBlendFunc (SDL_GetBlendModeSrcAlphaFactor acc blend0))
                        (GetBlendFunc (SDL_GetBlendModeDstAlphaFactor acc blend0)),
                      glBlendEquation
                        (GetBlendEquation (SDL_GetBlendModeColorOperation acc blend0))]),
               st\<lparr>blend := blend0\<rparr>)
         else ([], st))"

definition set_shader ::
  "GL_RenderData \<Rightarrow> GL_Shader \<Rightarrow> GL_DrawStateCache \<Rightarrow> GLcall list \<times> GL_DrawStateCache" where
  "set_shader data shader0 st =
     (if shaders data \<and> shader0 \<noteq> shader st
      then ([GL_SelectShader shader0], st\<lparr>shader := shader0\<rparr>)
      else ([], st))"

definition set_texturing ::
  "GL_RenderData \<Rightarrow> draw_command \<Rightarrow> GL_DrawStateCache \<Rightarrow> GLcall list \<times> GL_DrawStateCache" where
  "set_texturing data cmd st =
     (if (draw_texture cmd \<noteq> None) \<noteq> texturing st then
        (if draw_texture cmd = None
         then ([glDisable (textype data)], st\<lparr>texturing := False\<rparr>)
         else ([glEnable (textype data)], st\<lparr>texturing := False\<rparr>))
      else ([], st))"

definition SetDrawState ::
  "GL_RenderData \<Rightarrow> blendmode_accessors \<Rightarrow> draw_command \<Rightarrow> GL_Shader \<Rightarrow> GL_DrawStateCache \<Rightarrow>
   GLcall list \<times> GL_DrawStateCache" where
  "SetDrawState data acc cmd shader0 st =
     (case set_draw_color cmd st of (calls1, st1) \<Rightarrow>
      case set_blend acc cmd st1 of (calls2, st2) \<Rightarrow>
      case set_shader data shader0 st2 of (calls3, st3) \<Rightarrow>
      case set_texturing data cmd st3 of (calls4, st4) \<Rightarrow>
        (calls1 @ calls2 @ calls3 @ calls4, st4))"

text \<open>
  The shader \<open>SetCopyState\<close> selects (lines 1218 to 1255). In the \<open>default\<close> branch the
  source asserts and leaves \<open>SHADER_RGB\<close>.
\<close>

definition copy_shader ::
  "GL_RenderData \<Rightarrow> SDL_YUV_CONVERSION_MODE \<Rightarrow> SDL_Texture \<Rightarrow> GL_TextureData \<Rightarrow> GL_Shader" where
  "copy_shader data mode t texturedata =
     (if shaders data \<and> (yuv texturedata \<or> nv12 texturedata) then
        (case mode of
           SDL_YUV_CONVERSION_JPEG \<Rightarrow>
             if yuv texturedata then SHADER_YUV_JPEG
             else if tex_format t = SDL_PIXELFORMAT_NV12 then SHADER_NV12_JPEG
             else SHADER_NV21_JPEG
         | SDL_YUV_CONVERSION_BT601 \<Rightarrow>
             if yuv texturedata then SHADER_YUV_BT601
             else if tex_format t = SDL_PIXELFORMAT_NV12 then SHADER_NV12_BT601
             else SHADER_NV21_BT601
         | SDL_YUV_CONVERSION_BT709 \<Rightarrow>
             if yuv texturedata then SHADER_YUV_BT709
             else if tex_format t = SDL_PIXELFORMAT_NV12 then SHADER_NV12_BT709
             else SHADER_NV21_BT709
         | SDL_YUV_CONVERSION_AUTOMATIC \<Rightarrow> SHADER_RGB)
      else SHADER_RGB)"

definition bind_texture ::
  "GL_RenderData \<Rightarrow> nat \<Rightarrow> GL_TextureData \<Rightarrow> GL_DrawStateCache \<Rightarrow>
   GLcall list \<times> GL_DrawStateCache" where
  "bind_texture data p texturedata st =
     (if Some p \<noteq> bound_texture st then
        ((if yuv texturedata
          then [glActiveTextureARB GL_TEXTURE2_ARB,
                glBindTexture (textype data) (vtexture texturedata),
                glActiveTextureARB GL_TEXTURE1_ARB,
                glBindTexture (textype data) (utexture texturedata)]
          else []) @
         (if nv12 texturedata
          then [glActiveTextureARB GL_TEXTURE1_ARB,
                glBindTexture (textype data) (utexture texturedata)]
          else []) @
         [glActiveTextureARB GL_TEXTURE0_ARB,
          glBindTexture (textype data) (texture texturedata)],
         st\<lparr>bound_texture := Some p\<rparr>)
      else ([], st))"

text \<open>
  \<open>SetCopyState\<close> (lines 1211 to 1277). It dereferences the command's texture and the
  texture's backend data; either being null is undefined.
\<close>

definition SetCopyState ::
  "GL_RenderData \<Rightarrow> run_env \<Rightarrow> draw_command \<Rightarrow> GL_DrawStateCache \<Rightarrow>
   (GLcall list \<times> GL_DrawStateCache) option" where
  "SetCopyState data env cmd st =
     (case draw_texture cmd of
        None \<Rightarrow> None
      | Some p \<Rightarrow>
          (let t = texture_at env p in
           case driverdata t of
             None \<Rightarrow> None
           | Some texturedata \<Rightarrow>
               (let shader0 = copy_shader data
                                (yuv_conversion_mode env (tex_w t) (tex_h t)) t texturedata
                in case SetDrawState data (blend_accessors env) cmd shader0 st of
                     (calls1, st1) \<Rightarrow>
                       (case bind_texture data p texturedata st1 of
                          (calls2, st2) \<Rightarrow> Some (calls1 @ calls2, st2)))))"

text \<open>Reading slot \<open>i\<close> of the vertex buffer.\<close>

definition vread :: "GLfloat list \<Rightarrow> nat \<Rightarrow> GLfloat option" where
  "vread vs i = (if i < length vs then Some (vs ! i) else None)"

text \<open>
  The vertex loops \<open>for (i = 0; i < count; ++i, verts += 2) glVertex2f(verts[0], verts[1])\<close>
  and \<open>for (...; verts += 4) glRectf(verts[0], verts[1], verts[2], verts[3])\<close>: \<open>p\<close> is
  the slot \<open>verts\<close> points to, the last argument the number of iterations left.
  \<open>emit_vertices_trace\<close> gives the calls the first loop makes up to its end or to its
  first read outside the buffer, and whether it reaches its end.
\<close>

fun emit_vertices_trace :: "GLfloat list \<Rightarrow> nat \<Rightarrow> nat \<Rightarrow> GLcall list \<times> bool" where
  "emit_vertices_trace vs p 0 = ([], True)"
| "emit_vertices_trace vs p (Suc n) =
     (case (vread vs p, vread vs (p + 1)) of
        (Some x, Some y) \<Rightarrow>
          (case emit_vertices_trace vs (p + 2) n of
             (calls, finished) \<Rightarrow> (glVertex2f x y # calls, finished))
      | _ \<Rightarrow> ([], False))"

definition emit_vertices :: "GLfloat list \<Rightarrow> nat \<Rightarrow> nat \<Rightarrow> GLcall list option" where
  "emit_vertices vs p n =
     (case emit_vertices_trace vs p n of
        (calls, finished) \<Rightarrow> if finished then Some calls else None)"

fun emit_rects :: "GLfloat list \<Rightarrow> nat \<Rightarrow> nat \<Rightarrow> GLcall list option" where
  "emit_rects vs p 0 = Some []"
| "emit_rects vs p (Suc n) =
     (case (vread vs p, vread vs (p + 1), vread vs (p + 2), vread vs (p + 3)) of
        (Some x1, Some y1, Some x2, Some y2) \<Rightarrow>
          (case emit_rects vs (p + 4) n of
             None \<Rightarrow> None
           | Some calls \<Rightarrow> Some (glRectf x1 y1 x2 y2 # calls))
      | _ \<Rightarrow> None)"

text \<open>
  Converting a float to \<open>int\<close> truncates towards zero; a value outside the range of
  \<open>int\<close> is undefined.
\<close>

definition float_to_int :: "GLfloat \<Rightarrow> int option" where
  "float_to_int f =
     (let n = (if 0 \<le> f then \<lfloor>f\<rfloor> else \<lceil>f\<rceil>)
      in if - INT_MAX - 1 \<le> n \<and> n \<le> INT_MAX then Some n else None)"

text \<open>
  The vertices of the extra \<open>GL_POINTS\<close> block of a line strip (lines 1462 to 1484).
  \<open>p\<close> is the slot \<open>verts\<close> points to when the block is reached. The index
  \<open>(count-1)*2\<close> is computed in \<open>size_t\<close>: with \<open>count = 0\<close> it wraps around and the
  read is outside the buffer. Off Mac OS X and Windows the four floats are converted to
  \<open>int\<close> before any vertex call, and the \<open>int\<close> arguments of \<open>glVertex2f\<close> are converted
  back to single precision.
\<close>

definition extra_point_calls :: "platform \<Rightarrow> GLfloat list \<Rightarrow> nat \<Rightarrow> nat \<Rightarrow> GLcall list option" where
  "extra_point_calls plat vs p count =
     (if count = 0 then None
      else if plat = MACOSX \<or> plat = WIN32 then
        (case (vread vs (p + (count - 1) * 2), vread vs (p + (count * 2 - 1))) of
           (Some x, Some y) \<Rightarrow> Some [glVertex2f x y]
         | _ \<Rightarrow> None)
      else
        (case (vread vs p, vread vs (p + 1),
               vread vs (p + (count - 1) * 2), vread vs (p + (count * 2 - 1))) of
           (Some f1, Some f2, Some f3, Some f4) \<Rightarrow>
             (case (float_to_int f1, float_to_int f2, float_to_int f3, float_to_int f4) of
                (Some x1, Some y1, Some x2, Some y2) \<Rightarrow>
                  Some ((if x1 > x2 then [glVertex2f (float32_of_int x1) (float32_of_int y1)]
                         else if x2 > x1 then [glVertex2f (float32_of_int x2) (float32_of_int y2)]
                         else []) @
                        (if y1 > y2 then [glVertex2f (float32_of_int x1) (float32_of_int y1)]
                         else if y2 > y1 then [glVertex2f (float32_of_int x2) (float32_of_int y2)]
                         else []))
              | _ \<Rightarrow> None)
         | _ \<Rightarrow> None))"

text \<open>
  The test \<open>count > 2 && verts[0] == verts[(count-1)*2] && verts[1] == verts[(count*2)-1]\<close>
  with its short-circuit evaluation.
\<close>

definition lines_closed :: "GLfloat list \<Rightarrow> nat \<Rightarrow> nat \<Rightarrow> bool option" where
  "lines_closed vs p count =
     (if count > 2 then
        (case (vread vs p, vread vs (p + (count - 1) * 2)) of
           (Some x1, Some x2) \<Rightarrow>
             if x1 = x2 then
               (case (vread vs (p + 1), vread vs (p + (count * 2 - 1))) of
                  (Some y1, Some y2) \<Rightarrow> Some (y1 = y2)
                | _ \<Rightarrow> None)
             else Some False
         | _ \<Rightarrow> None)
      else Some False)"

text \<open>
  The drawing of \<open>SDL_RENDERCMD_DRAW_LINES\<close> after \<open>SetDrawState\<close> (lines 1435 to 1485).
  The strip loop leaves \<open>verts\<close> behind the last vertex; the extra block reads from there.
  \<open>draw_lines_trace\<close> gives the calls made up to the \<open>break\<close> or to the first read
  outside the buffer, and whether the \<open>break\<close> is reached; \<open>draw_lines_calls\<close> is the
  outcome of a drawing that reaches it.
\<close>

definition draw_lines_trace :: "platform \<Rightarrow> GLfloat list \<Rightarrow> nat \<Rightarrow> nat \<Rightarrow> GLcall list \<times> bool" where
  "draw_lines_trace plat vs p count =
     (case lines_closed vs p count of
        None \<Rightarrow> ([], False)
      | Some True \<Rightarrow>
          (case emit_vertices_trace vs p (count - 1) of
             (vcalls, finished) \<Rightarrow>
               if finished then ([glBegin GL_LINE_LOOP] @ vcalls @ [glEnd], True)
               else ([glBegin GL_LINE_LOOP] @ vcalls, False))
      | Some False \<Rightarrow>
          (case emit_vertices_trace vs p count of
             (vcalls, finished) \<Rightarrow>
               if finished then
                 (case extra_point_calls plat vs (p + 2 * count) count of
                    None \<Rightarrow>
                      ([glBegin GL_LINE_STRIP] @ vcalls @ [glEnd] @ [glBegin GL_POINTS], False)
                  | Some pcalls \<Rightarrow>
                      ([glBegin GL_LINE_STRIP] @ vcalls @ [glEnd] @
                       [glBegin GL_POINTS] @ pcalls @ [glEnd], True))
               else ([glBegin GL_LINE_STRIP] @ vcalls, False)))"

definition draw_lines_calls :: "platform \<Rightarrow> GLfloat list \<Rightarrow> nat \<Rightarrow> nat \<Rightarrow> GLcall list option" where
  "draw_lines_calls plat vs p count =
     (case draw_lines_trace plat vs p count of
        (lcalls, finished) \<Rightarrow> if finished then Some lcalls else None)"

text \<open>The quad of a copy (lines 1510 to 1519), from the eight floats of the command.\<close>

definition quad_calls :: "GLfloat list \<Rightarrow> nat \<Rightarrow> GLcall list option" where
  "quad_calls vs p =
     (case (vread vs p, vread vs (p + 1), vread vs (p + 2), vread vs (p + 3),
            vread vs (p + 4), vread vs (p + 5), vread vs (p + 6), vread vs (p + 7)) of
        (Some minx, Some miny, Some maxx, Some maxy, Some minu, Some maxu, Some minv, Some maxv) \<Rightarrow>
          Some [glBegin GL_TRIANGLE_STRIP,
                glTexCoord2f minu minv, glVertex2f minx miny,
                glTexCoord2f maxu minv, glVertex2f maxx miny,
                glTexCoord2f minu maxv, glVertex2f minx maxy,
                glTexCoord2f maxu maxv, glVertex2f maxx maxy,
                glEnd]
      | _ \<Rightarrow> None)"

text \<open>
  The viewport and projection calls (lines 1358 to 1369, and 1320 to 1331 without the final
  \<open>glLoadIdentity\<close>): \<open>glViewport\<close> takes the rectangle \<open>vp\<close>, \<open>glOrtho\<close> takes the width
  and height of \<open>renderer->viewport\<close>.
\<close>

definition viewport_calls :: "SDL_Renderer \<Rightarrow> bool \<Rightarrow> int \<Rightarrow> SDL_Rect \<Rightarrow> GLcall list" where
  "viewport_calls renderer istarget drawableh vp =
     [glMatrixMode GL_PROJECTION, glLoadIdentity,
      glViewport (rect_x vp)
        (if istarget then rect_y vp else drawableh - rect_y vp - rect_h vp)
        (rect_w vp) (rect_h vp)] @
     (if rect_w vp \<noteq> 0 \<and> rect_h vp \<noteq> 0
      then [glOrtho 0 (real_of_int (rect_w (renderer_viewport renderer)))
              (if istarget then 0 else real_of_int (rect_h (renderer_viewport renderer)))
              (if istarget then real_of_int (rect_h (renderer_viewport renderer)) else 0)
              0 1]
      else []) @
     [glMatrixMode GL_MODELVIEW]"

definition scissor_call :: "bool \<Rightarrow> int \<Rightarrow> SDL_Rect \<Rightarrow> SDL_Rect \<Rightarrow> GLcall" where
  "scissor_call istarget drawableh vp rect =
     glScissor (rect_x vp + rect_x rect)
       (if istarget then rect_y vp + rect_y rect
        else drawableh - rect_y vp - rect_y rect - rect_h rect)
       (rect_w rect) (rect_h rect)"

definition istarget_of :: "SDL_Renderer \<Rightarrow> bool" where
  "istarget_of renderer = (renderer_target renderer \<noteq> None)"

text \<open>\<open>drawableh\<close> is 0 unless the target is the window.\<close>

definition drawableh_of :: "run_env \<Rightarrow> SDL_Renderer \<Rightarrow> int" where
  "drawableh_of env renderer =
     (if \<not> istarget_of renderer then snd (drawable_size env) else 0)"

text \<open>
  One iteration of the \<open>while (cmd)\<close> loop: the \<open>switch\<close> over the command (lines 1349 to
  1558). \<open>vs\<close> is the vertex buffer.
\<close>

definition run_command ::
  "run_env \<Rightarrow> SDL_Renderer \<Rightarrow> GLfloat list \<Rightarrow> SDL_RenderCommand \<Rightarrow> GL_DrawStateCache \<Rightarrow>
   (GLcall list \<times> GL_DrawStateCache) option" where
  "run_command env renderer vs c st =
     (let data = renderer_driverdata renderer;
          clipping_enabled = renderer_clipping_enabled renderer;
          istarget = istarget_of renderer;
          drawableh = drawableh_of env renderer
      in case c of
        SDL_RENDERCMD_SETDRAWCOLOR r g b a \<Rightarrow> Some ([], st)
      | SDL_RENDERCMD_SETVIEWPORT rect \<Rightarrow>
          if rect \<noteq> viewport st
          then Some (viewport_calls renderer istarget drawableh rect, st\<lparr>viewport := rect\<rparr>)
          else Some ([], st)
      | SDL_RENDERCMD_SETCLIPRECT enabled rect \<Rightarrow>
          (let changed = (cliprect st \<noteq> rect);
               calls1 = (if cliprect_enabled st \<noteq> enabled
                         then (if enabled then [glEnable GL_SCISSOR_TEST]
                               else [glDisable GL_SCISSOR_TEST])
                         else []);
               st1 = (if cliprect_enabled st \<noteq> enabled
                      then st\<lparr>cliprect_enabled := enabled\<rparr> else st)
           in if cliprect_enabled st1 \<and> changed
              then Some (calls1 @ [scissor_call istarget drawableh (viewport st1) rect],
                         st1\<lparr>cliprect := rect\<rparr>)
              else Some (calls1, st1))
      | SDL_RENDERCMD_CLEAR r g b a \<Rightarrow>
          (let color = pack_color r g b a
           in Some ((if color \<noteq> clear_color st
                     then [glClearColor (color4f r) (color4f g) (color4f b) (color4f a)]
                     else []) @
                    (if clipping_enabled then [glDisable GL_SCISSOR_TEST] else []) @
                    [glClear GL_COLOR_BUFFER_BIT] @
                    (if clipping_enabled then [glEnable GL_SCISSOR_TEST] else []),
                    (if color \<noteq> clear_color st then st\<lparr>clear_color := color\<rparr> else st)))
      | SDL_RENDERCMD_DRAW_POINTS cmd \<Rightarrow>
          (case SetDrawState data (blend_accessors env) cmd SHADER_SOLID st of
             (calls1, st1) \<Rightarrow>
               (case emit_vertices vs (draw_first cmd) (draw_count cmd) of
                  None \<Rightarrow> None
                | Some vcalls \<Rightarrow> Some (calls1 @ [glBegin GL_POINTS] @ vcalls @ [glEnd], st1)))
      | SDL_RENDERCMD_DRAW_LINES cmd \<Rightarrow>
          (case SetDrawState data (blend_accessors env) cmd SHADER_SOLID st of
             (calls1, st1) \<Rightarrow>
               (case draw_lines_calls (env_platform env) vs (draw_first cmd) (draw_count cmd) of
                  None \<Rightarrow> None
                | Some lcalls \<Rightarrow> Some (calls1 @ lcalls, st1)))
      | SDL_RENDERCMD_FILL_RECTS cmd \<Rightarrow>
          (case SetDrawState data (blend_accessors env) cmd SHADER_SOLID st of
             (calls1, st1) \<Rightarrow>
               (case emit_rects vs (draw_first cmd) (draw_count cmd) of
                  None \<Rightarrow> None
                | Some rcalls \<Rightarrow> Some (calls1 @ rcalls, st1)))
      | SDL_RENDERCMD_COPY cmd \<Rightarrow>
          (case quad_calls vs (draw_first cmd) of
             None \<Rightarrow> None
           | Some qcalls \<Rightarrow>
               (case SetCopyState data env cmd st of
                  None \<Rightarrow> None
                | Some (calls1, st1) \<Rightarrow> Some (calls1 @ qcalls, st1)))
      | SDL_RENDERCMD_COPY_EX cmd \<Rightarrow>
          (case (quad_calls vs (draw_first cmd), vread vs (draw_first cmd + 8),
                 vread vs (draw_first cmd + 9), vread vs (draw_first cmd + 10)) of
             (Some qcalls, Some translatex, Some translatey, Some angle) \<Rightarrow>
               (case SetCopyState data env cmd st of
                  None \<Rightarrow> None
                | Some (calls1, st1) \<Rightarrow>
                    Some (calls1 @
                          [glPushMatrix, glTranslatef translatex translatey 0,
                           glRotated angle 0 0 1] @ qcalls @ [glPopMatrix], st1))
           | _ \<Rightarrow> None)
      | SDL_RENDERCMD_NO_OP \<Rightarrow> Some ([], st))"

text \<open>The loop over the list of commands.\<close>

fun run_commands ::
  "run_env \<Rightarrow> SDL_Renderer \<Rightarrow> GLfloat list \<Rightarrow> SDL_RenderCommand list \<Rightarrow> GL_DrawStateCache \<Rightarrow>
   (GLcall list \<times> GL_DrawStateCache) option" where
  "run_commands env renderer vs [] st = Some ([], st)"
| "run_commands env renderer vs (c # cs) st =
     (case run_command env renderer vs c st of
        None \<Rightarrow> None
      | Some (calls1, st1) \<Rightarrow>
          (case run_commands env renderer vs cs st1 of
             None \<Rightarrow> None
           | Some (calls2, st2) \<Rightarrow> Some (calls1 @ calls2, st2)))"

text \<open>The cache at the start of a run (lines 1284 to 1295, 1319, 1334 and 1335).\<close>

definition initial_cache :: "SDL_Renderer \<Rightarrow> GL_DrawStateCache" where
  "initial_cache renderer =
     \<lparr>viewport = renderer_viewport renderer,
      bound_texture = None,
      blend = SDL_BLENDMODE_INVALID,
      shader = SHADER_INVALID,
      cliprect_enabled = renderer_clipping_enabled renderer,
      cliprect = renderer_clip_rect renderer,
      clear_color = pack_color (renderer_r renderer) (renderer_g renderer)
                      (renderer_b renderer) (renderer_a renderer),
      draw_color = pack_color (renderer_r renderer) (renderer_g renderer)
                     (renderer_b renderer) (renderer_a renderer),
      texturing = False\<rparr>"

text \<open>The calls made before the loop (lines 1309 to 1346).\<close>

definition preamble_calls :: "run_env \<Rightarrow> SDL_Renderer \<Rightarrow> GLcall list" where
  "preamble_calls env renderer =
     [glClearColor (color4f (renderer_r renderer)) (color4f (renderer_g renderer))
        (color4f (renderer_b renderer)) (color4f (renderer_a renderer)),
      glColor4f (color4f (renderer_r renderer)) (color4f (renderer_g renderer))
        (color4f (renderer_b renderer)) (color4f (renderer_a renderer))] @
     viewport_calls renderer (istarget_of renderer) (drawableh_of env renderer)
       (renderer_viewport renderer) @
     [glLoadIdentity,
      (if renderer_clipping_enabled renderer
       then glEnable GL_SCISSOR_TEST else glDisable GL_SCISSOR_TEST),
      glDisable (textype (renderer_driverdata renderer)),
      scissor_call (istarget_of renderer) (drawableh_of env renderer)
        (renderer_viewport renderer) (renderer_clip_rect renderer)]"


text \<open>
  Reading a list of calls: the calls that program one field of the pipeline state.
  \<open>ttype\<close> is the texture target of the renderer (the capability \<open>glEnable\<close> and
  \<open>glDisable\<close> switch for texturing).
\<close>

datatype state_field =
  field_color | field_blend | field_shader | field_texturing | field_texture

fun programs :: "GLenum \<Rightarrow> GLcall \<Rightarrow> state_field option" where
  "programs ttype (glColor4f r g b a) = Some field_color"
| "programs ttype (glEnable cap) =
     (if cap = GL_BLEND then Some field_blend
      else if cap = ttype then Some field_texturing else None)"
| "programs ttype (glDisable cap) =
     (if cap = GL_BLEND then Some field_blend
      else if cap = ttype then Some field_texturing else None)"
| "programs ttype (glBlendFuncSeparate f1 f2 f3 f4) = Some field_blend"
| "programs ttype (glBlendEquation e) = Some field_blend"
| "programs ttype (GL_SelectShader s) = Some field_shader"
| "programs ttype (glActiveTextureARB u) = Some field_texture"
| "programs ttype (glBindTexture target n) = Some field_texture"
| "programs ttype c = None"

definition field_calls :: "GLenum \<Rightarrow> state_field \<Rightarrow> GLcall list \<Rightarrow> GLcall list" where
  "field_calls ttype f calls = filter (\<lambda>c. programs ttype c = Some f) calls"

text \<open>Whether the scissor test is enabled after a list of calls, given how it was before.\<close>

fun scissor_after :: "bool \<Rightarrow> GLcall list \<Rightarrow> bool" where
  "scissor_after on [] = on"
| "scissor_after on (glEnable cap # cs) =
     scissor_after (if cap = GL_SCISSOR_TEST then True else on) cs"
| "scissor_after on (glDisable cap # cs) =
     scissor_after (if cap = GL_SCISSOR_TEST then False else on) cs"
| "scissor_after on (c # cs) = scissor_after on cs"

text \<open>
  Concrete inputs for the examples of the executor: accessors that take every blend mode
  for alpha blending, a window of 640 by 480 pixels on a platform other than Mac OS X and
  Windows, and a renderer drawing to the window in opaque black with clipping enabled.
\<close>

definition example_accessors :: blendmode_accessors where
  "example_accessors =
     \<lparr>SDL_GetBlendModeSrcColorFactor = (\<lambda>m. SDL_BLENDFACTOR_SRC_ALPHA),
      SDL_GetBlendModeSrcAlphaFactor = (\<lambda>m. SDL_BLENDFACTOR_ONE),
      SDL_GetBlendModeColorOperation = (\<lambda>m. SDL_BLENDOPERATION_ADD),
      SDL_GetBlendModeDstColorFactor = (\<lambda>m. SDL_BLENDFACTOR_ONE_MINUS_SRC_ALPHA),
      SDL_GetBlendModeDstAlphaFactor = (\<lambda>m. SDL_BLENDFACTOR_ONE_MINUS_SRC_ALPHA),
      SDL_GetBlendModeAlphaOperation = (\<lambda>m. SDL_BLENDOPERATION_ADD)\<rparr>"

definition example_run_env :: run_env where
  "example_run_env =
     \<lparr>env_platform = OTHER_PLATFORM, drawable_size = (640, 480),
      texture_at = (\<lambda>p. example_texture SDL_PIXELFORMAT_ARGB8888 SDL_TEXTUREACCESS_STATIC 5 3),
      yuv_conversion_mode = (\<lambda>w h. SDL_YUV_CONVERSION_BT601),
      blend_accessors = example_accessors, errors_reported = False\<rparr>"

definition example_renderer :: SDL_Renderer where
  "example_renderer =
     \<lparr>renderer_viewport = \<lparr>rect_x = 0, rect_y = 0, rect_w = 640, rect_h = 480\<rparr>,
      renderer_clip_rect = \<lparr>rect_x = 0, rect_y = 0, rect_w = 100, rect_h = 100\<rparr>,
      renderer_clipping_enabled = True, renderer_target = None,
      renderer_r = 0, renderer_g = 0, renderer_b = 0, renderer_a = 255,
      renderer_driverdata = example_renderdata\<rparr>"

text \<open>A draw command in the color (\<open>red\<close>, 0, 0, 255) with blend mode 1 and no texture.\<close>

definition example_draw :: "Uint8 \<Rightarrow> nat \<Rightarrow> nat \<Rightarrow> draw_command" where
  "example_draw red first count =
     \<lparr>draw_first = first, draw_count = count, draw_r = red, draw_g = 0, draw_b = 0,
      draw_a = 255, draw_blend = 1, draw_texture = None\<rparr>"



text \<open>A vertex buffer of eight floats: two rectangles, or four points.\<close>

definition example_vertices :: "GLfloat list" where
  "example_vertices = [0, 0, 10, 10, 20, 20, 30, 30]"


fun is_vertex :: "GLcall \<Rightarrow> bool" where
  "is_vertex (glVertex2f x y) = True"
| "is_vertex c = False"

fun begin_mode :: "GLcall \<Rightarrow> GLenum list" where
  "begin_mode (glBegin m) = [m]"
| "begin_mode c = []"

definition begins :: "GLcall list \<Rightarrow> GLenum list" where
  "begins calls = concat (map begin_mode calls)"






section \<open>Properties\<close>

subsection \<open>Single-precision rounding\<close>

lemma round_half_even_of_int [simp]: "round_half_even (real_of_int k) = k"
  by (simp add: round_half_even_def)

lemma floor_log2_eq:
  assumes "0 < x" "2 powi n \<le> x" "x < 2 powi (n + 1)"
  shows "\<lfloor>log 2 x\<rfloor> = n"
proof -
  have "2 powr real_of_int n \<le> x" "x < 2 powr real_of_int (n + 1)"
    using assms(2,3) by (simp_all only: powr_real_of_int' [of 2, simplified])
  then show ?thesis using assms(1) floor_log_eq_powr_iff [of x 2 n] by simp
qed

lemma float32_ulp_exponent_eq:
  assumes "2 powi n \<le> \<bar>x\<bar>" "\<bar>x\<bar> < 2 powi (n + 1)"
  shows "float32_ulp_exponent x = max (n - 23) (- 149)"
proof -
  have "(0::real) < 2 powi n" by simp
  then have "0 < \<bar>x\<bar>" using assms(1) by linarith
  then show ?thesis
    using floor_log2_eq [of "\<bar>x\<bar>" n] assms by (simp add: float32_ulp_exponent_def)
qed

lemma float32_ulp_exponent_le:
  assumes "x \<noteq> 0" "\<bar>x\<bar> < 2 powi (n + 24)" "- 149 \<le> n"
  shows "float32_ulp_exponent x \<le> n"
proof -
  have pos: "0 < \<bar>x\<bar>" using assms(1) by simp
  define k where "k = \<lfloor>log 2 \<bar>x\<bar>\<rfloor>"
  have "2 powr real_of_int k \<le> \<bar>x\<bar>"
    using floor_log_eq_powr_iff [of "\<bar>x\<bar>" 2 k] pos by (simp add: k_def)
  then have "2 powi k \<le> \<bar>x\<bar>" by (simp add: powr_real_of_int')
  then have "(2::real) powi k < 2 powi (n + 24)" using assms(2) by linarith
  then have "k < n + 24"
    using power_int_increasing [of "n + 24" k "2::real"] by (cases "k < n + 24") simp_all
  then show ?thesis using assms(3) by (simp add: float32_ulp_exponent_def k_def)
qed

lemma float32_round_exact:
  assumes "is_float32 x"
  shows "float32_round x = x"
proof (cases "x = 0")
  case True then show ?thesis by (simp add: float32_round_def)
next
  case False
  obtain m e where x: "x = real_of_int m * 2 powi e" and m: "\<bar>m\<bar> < 2 ^ 24" and e: "- 149 \<le> e"
    using assms by (auto simp: is_float32_def)
  define E where "E = float32_ulp_exponent x"
  have "\<bar>x\<bar> = real_of_int \<bar>m\<bar> * 2 powi e" by (simp add: x abs_mult)
  also have "\<dots> < 2 ^ 24 * 2 powi e"
    using m by (intro mult_strict_right_mono) (simp_all add: of_int_less_numeral_power_cancel_iff)
  also have "\<dots> = 2 powi (e + 24)" by (simp add: power_int_add)
  finally have "\<bar>x\<bar> < 2 powi (e + 24)" .
  then have le: "E \<le> e" unfolding E_def using float32_ulp_exponent_le [OF False _ e] by simp
  have "x / 2 powi E = real_of_int m * 2 powi (e - E)" by (simp add: x power_int_diff)
  also have "\<dots> = real_of_int (m * 2 ^ nat (e - E))" using le by (simp add: power_int_def)
  finally have "x / 2 powi E = real_of_int (m * 2 ^ nat (e - E))" .
  then have "real_of_int (round_half_even (x / 2 powi E)) = x / 2 powi E"
    by (simp only: round_half_even_of_int)
  then have "float32_round x = 2 powi E * (x / 2 powi E)"
    using False by (simp add: float32_round_def E_def [symmetric])
  then show ?thesis by simp
qed

lemma is_float32_int_div:
  assumes "\<bar>i\<bar> \<le> 2 ^ 24" "k \<le> 100"
  shows "is_float32 (real_of_int i / 2 ^ k)"
proof (cases "\<bar>i\<bar> < 2 ^ 24")
  case True
  have "real_of_int i / 2 ^ k = real_of_int i * 2 powi (- int k)"
    by (simp add: power_int_minus field_simps)
  with True assms(2) show ?thesis
    unfolding is_float32_def by (intro exI [of _ i] exI [of _ "- int k"]) simp
next
  case False
  with assms(1) have i: "\<bar>i\<bar> = 2 ^ 24" by simp
  then have "i = 16777216 \<or> i = - 16777216" by (auto simp: abs_if split: if_splits)
  then have ev: "i = 2 * (i div 2)" and small: "\<bar>i div 2\<bar> < 2 ^ 24" by auto
  have "real_of_int i / 2 ^ k = real_of_int (2 * (i div 2)) * 2 powi (- int k)"
    using ev by (simp add: power_int_minus field_simps)
  also have "\<dots> = real_of_int (i div 2) * 2 powi (1 - int k)"
    by (simp add: power_int_diff power_int_minus field_simps)
  finally have e: "real_of_int i / 2 ^ k = real_of_int (i div 2) * 2 powi (1 - int k)" .
  from small e assms(2) show ?thesis
    unfolding is_float32_def by (intro exI [of _ "i div 2"] exI [of _ "1 - int k"]) simp
qed

lemma is_float32_of_int: "\<bar>i\<bar> \<le> 2 ^ 24 \<Longrightarrow> is_float32 (real_of_int i)"
  using is_float32_int_div [of i 0] by simp


lemma is_float32_half_integer:
  assumes "\<bar>n\<bar> < 2 ^ 23"
  shows "is_float32 (real_of_int n + 1 / 2)"
proof -
  have "real_of_int n + 1 / 2 = real_of_int (2 * n + 1) * 2 powi (- 1)"
    by (simp add: power_int_minus field_simps)
  moreover have "\<bar>2 * n + 1\<bar> < 2 ^ 24" using assms by (simp add: abs_if split: if_splits)
  ultimately show ?thesis
    unfolding is_float32_def by (intro exI [of _ "2 * n + 1"] exI [of _ "- 1"]) simp
qed


lemma float32_round_tie_8388609: "float32_round (8388609 + 1 / 2) = 8388610"
proof -
  have "float32_ulp_exponent (8388609 + 1 / 2) = 0"
    using float32_ulp_exponent_eq [of 23 "8388609 + 1 / 2"] by simp
  then show ?thesis by (simp add: float32_round_def round_half_even_def)
qed


subsection \<open>Blend mode support\<close>

lemma GetBlendFunc_native: "GetBlendFunc f \<noteq> GL_INVALID_ENUM \<longleftrightarrow> native_factor f"
  by (cases f) (simp_all add: native_factor_def)

lemma GetBlendEquation_native:
  "GetBlendEquation operation \<noteq> GL_INVALID_ENUM \<longleftrightarrow> native_operation operation"
  by (cases operation) (simp_all add: native_operation_def)

text \<open>
  Claim C3. For every blend mode (whatever the six accessors return for it),
  \<open>GL_SupportsBlendMode\<close> answers true if and only if the four factors and the two
  operations each map to a native enumerant and the color operation equals the alpha
  operation; in particular a mode whose color and alpha operations differ is never
  supported.
\<close>

theorem GL_SupportsBlendMode_iff:
  "(GL_SupportsBlendMode acc blendMode \<longleftrightarrow>
      GetBlendFunc (SDL_GetBlendModeSrcColorFactor acc blendMode) \<noteq> GL_INVALID_ENUM \<and>
      GetBlendFunc (SDL_GetBlendModeDstColorFactor acc blendMode) \<noteq> GL_INVALID_ENUM \<and>
      GetBlendFunc (SDL_GetBlendModeSrcAlphaFactor acc blendMode) \<noteq> GL_INVALID_ENUM \<and>
      GetBlendFunc (SDL_GetBlendModeDstAlphaFactor acc blendMode) \<noteq> GL_INVALID_ENUM \<and>
      GetBlendEquation (SDL_GetBlendModeColorOperation acc blendMode) \<noteq> GL_INVALID_ENUM \<and>
      GetBlendEquation (SDL_GetBlendModeAlphaOperation acc blendMode) \<noteq> GL_INVALID_ENUM \<and>
      SDL_GetBlendModeColorOperation acc blendMode = SDL_GetBlendModeAlphaOperation acc blendMode)
   \<and> (GL_SupportsBlendMode acc blendMode \<longleftrightarrow>
      native_factor (SDL_GetBlendModeSrcColorFactor acc blendMode) \<and>
      native_factor (SDL_GetBlendModeDstColorFactor acc blendMode) \<and>
      native_factor (SDL_GetBlendModeSrcAlphaFactor acc blendMode) \<and>
      native_factor (SDL_GetBlendModeDstAlphaFactor acc blendMode) \<and>
      native_operation (SDL_GetBlendModeColorOperation acc blendMode) \<and>
      native_operation (SDL_GetBlendModeAlphaOperation acc blendMode) \<and>
      SDL_GetBlendModeColorOperation acc blendMode = SDL_GetBlendModeAlphaOperation acc blendMode)
   \<and> (SDL_GetBlendModeColorOperation acc blendMode \<noteq> SDL_GetBlendModeAlphaOperation acc blendMode
        \<longrightarrow> \<not> GL_SupportsBlendMode acc blendMode)"
proof -
  have first: "GL_SupportsBlendMode acc blendMode \<longleftrightarrow>
      GetBlendFunc (SDL_GetBlendModeSrcColorFactor acc blendMode) \<noteq> GL_INVALID_ENUM \<and>
      GetBlendFunc (SDL_GetBlendModeDstColorFactor acc blendMode) \<noteq> GL_INVALID_ENUM \<and>
      GetBlendFunc (SDL_GetBlendModeSrcAlphaFactor acc blendMode) \<noteq> GL_INVALID_ENUM \<and>
      GetBlendFunc (SDL_GetBlendModeDstAlphaFactor acc blendMode) \<noteq> GL_INVALID_ENUM \<and>
      GetBlendEquation (SDL_GetBlendModeColorOperation acc blendMode) \<noteq> GL_INVALID_ENUM \<and>
      GetBlendEquation (SDL_GetBlendModeAlphaOperation acc blendMode) \<noteq> GL_INVALID_ENUM \<and>
      SDL_GetBlendModeColorOperation acc blendMode = SDL_GetBlendModeAlphaOperation acc blendMode"
    unfolding GL_SupportsBlendMode_def Let_def by auto
  show ?thesis
    using first unfolding GetBlendFunc_native GetBlendEquation_native by blast
qed

text \<open>
  The theorem at two concrete modes: source-alpha blending with ADD for color and alpha
  is supported; the same factors with ADD for color and SUBTRACT for alpha are not.
\<close>

theorem GL_SupportsBlendMode_iff_witness:
  "GL_SupportsBlendMode
     \<lparr>SDL_GetBlendModeSrcColorFactor = \<lambda>m. SDL_BLENDFACTOR_SRC_ALPHA,
      SDL_GetBlendModeSrcAlphaFactor = \<lambda>m. SDL_BLENDFACTOR_ONE,
      SDL_GetBlendModeColorOperation = \<lambda>m. SDL_BLENDOPERATION_ADD,
      SDL_GetBlendModeDstColorFactor = \<lambda>m. SDL_BLENDFACTOR_ONE_MINUS_SRC_ALPHA,
      SDL_GetBlendModeDstAlphaFactor = \<lambda>m. SDL_BLENDFACTOR_ONE_MINUS_SRC_ALPHA,
      SDL_GetBlendModeAlphaOperation = \<lambda>m. SDL_BLENDOPERATION_ADD\<rparr> 1
   \<and> \<not> GL_SupportsBlendMode
     \<lparr>SDL_GetBlendModeSrcColorFactor = \<lambda>m. SDL_BLENDFACTOR_SRC_ALPHA,
      SDL_GetBlendModeSrcAlphaFactor = \<lambda>m. SDL_BLENDFACTOR_ONE,
      SDL_GetBlendModeColorOperation = \<lambda>m. SDL_BLENDOPERATION_ADD,
      SDL_GetBlendModeDstColorFactor = \<lambda>m. SDL_BLENDFACTOR_ONE_MINUS_SRC_ALPHA,
      SDL_GetBlendModeDstAlphaFactor = \<lambda>m. SDL_BLENDFACTOR_ONE_MINUS_SRC_ALPHA,
      SDL_GetBlendModeAlphaOperation = \<lambda>m. SDL_BLENDOPERATION_SUBTRACT\<rparr> 1"
proof
  show "GL_SupportsBlendMode
     \<lparr>SDL_GetBlendModeSrcColorFactor = \<lambda>m. SDL_BLENDFACTOR_SRC_ALPHA,
      SDL_GetBlendModeSrcAlphaFactor = \<lambda>m. SDL_BLENDFACTOR_ONE,
      SDL_GetBlendModeColorOperation = \<lambda>m. SDL_BLENDOPERATION_ADD,
      SDL_GetBlendModeDstColorFactor = \<lambda>m. SDL_BLENDFACTOR_ONE_MINUS_SRC_ALPHA,
      SDL_GetBlendModeDstAlphaFactor = \<lambda>m. SDL_BLENDFACTOR_ONE_MINUS_SRC_ALPHA,
      SDL_GetBlendModeAlphaOperation = \<lambda>m. SDL_BLENDOPERATION_ADD\<rparr> 1"
    by (simp add: GL_SupportsBlendMode_def)
next
  have "SDL_BLENDOPERATION_ADD \<noteq> SDL_BLENDOPERATION_SUBTRACT" by simp
  then show "\<not> GL_SupportsBlendMode
     \<lparr>SDL_GetBlendModeSrcColorFactor = \<lambda>m. SDL_BLENDFACTOR_SRC_ALPHA,
      SDL_GetBlendModeSrcAlphaFactor = \<lambda>m. SDL_BLENDFACTOR_ONE,
      SDL_GetBlendModeColorOperation = \<lambda>m. SDL_BLENDOPERATION_ADD,
      SDL_GetBlendModeDstColorFactor = \<lambda>m. SDL_BLENDFACTOR_ONE_MINUS_SRC_ALPHA,
      SDL_GetBlendModeDstAlphaFactor = \<lambda>m. SDL_BLENDFACTOR_ONE_MINUS_SRC_ALPHA,
      SDL_GetBlendModeAlphaOperation = \<lambda>m. SDL_BLENDOPERATION_SUBTRACT\<rparr> 1"
    using GL_SupportsBlendMode_iff
      [of "\<lparr>SDL_GetBlendModeSrcColorFactor = \<lambda>m. SDL_BLENDFACTOR_SRC_ALPHA,
      SDL_GetBlendModeSrcAlphaFactor = \<lambda>m. SDL_BLENDFACTOR_ONE,
      SDL_GetBlendModeColorOperation = \<lambda>m. SDL_BLENDOPERATION_ADD,
      SDL_GetBlendModeDstColorFactor = \<lambda>m. SDL_BLENDFACTOR_ONE_MINUS_SRC_ALPHA,
      SDL_GetBlendModeDstAlphaFactor = \<lambda>m. SDL_BLENDFACTOR_ONE_MINUS_SRC_ALPHA,
      SDL_GetBlendModeAlphaOperation = \<lambda>m. SDL_BLENDOPERATION_SUBTRACT\<rparr>" 1]
    by simp
qed

subsection \<open>Rounding up to a power of two\<close>

lemma power_of_2_loop_done: "\<not> v < input \<Longrightarrow> power_of_2_loop v input = Some v"
  by (subst power_of_2_loop.simps) simp

lemma power_of_2_loop_step:
  "v < input \<Longrightarrow> power_of_2_loop v input =
     (if 0 < v \<and> 2 * v \<le> INT_MAX then power_of_2_loop (2 * v) input else None)"
  by (subst power_of_2_loop.simps) simp

lemma power_of_2_loop_spec:
  "0 < v \<Longrightarrow> v = 2 ^ k \<Longrightarrow> (k = 0 \<or> 2 ^ (k - 1) < input) \<Longrightarrow> power_of_2_loop v input = Some p \<Longrightarrow>
   \<exists>m. p = 2 ^ m \<and> input \<le> p \<and> (m = 0 \<or> 2 ^ (m - 1) < input)"
proof (induction v input arbitrary: k rule: power_of_2_loop.induct)
  case (1 v input)
  show ?case
  proof (cases "v < input")
    case False
    with "1.prems" have "p = v" by (simp add: power_of_2_loop_done)
    with False "1.prems" show ?thesis by (intro exI[of _ k]) auto
  next
    case True
    with "1.prems" have ok: "0 < v \<and> 2 * v \<le> INT_MAX" and rec: "power_of_2_loop (2 * v) input = Some p"
      by (auto simp: power_of_2_loop_step split: if_splits)
    have a: "2 * v = 2 ^ Suc k" using "1.prems" by simp
    have b: "Suc k = 0 \<or> (2::int) ^ (Suc k - 1) < input" using True "1.prems" by simp
    have c: "0 < 2 * v" using ok by simp
    show ?thesis
      by (rule "1.IH"[OF True ok c a b rec])
  qed
qed

lemma power_of_2_loop_total:
  "0 < v \<Longrightarrow> input \<le> 2 ^ 30 \<Longrightarrow> \<exists>p. power_of_2_loop v input = Some p"
proof (induction v input rule: power_of_2_loop.induct)
  case (1 v input)
  show ?case
  proof (cases "v < input")
    case False
    then show ?thesis by (simp add: power_of_2_loop_done)
  next
    case True
    with "1.prems" have ok: "0 < v \<and> 2 * v \<le> INT_MAX" by (simp add: INT_MAX_def)
    have c: "0 < 2 * v" using ok by simp
    from "1.IH"[OF True ok c "1.prems"(2)] ok True show ?thesis
      by (simp add: power_of_2_loop_step)
  qed
qed

lemma power_of_2_smallest:
  assumes "power_of_2 input = Some p"
  shows "smallest_power_of_two_ge p input"
proof -
  from assms have "power_of_2_loop 1 input = Some p" by (simp add: power_of_2_def)
  from power_of_2_loop_spec[of 1 0 input p, OF _ _ _ this]
  obtain m where m: "p = 2 ^ m" "input \<le> p" "m = 0 \<or> 2 ^ (m - 1) < input" by auto
  have "p \<le> 2 ^ j" if "input \<le> 2 ^ j" for j :: nat
  proof (cases "m = 0")
    case True
    then show ?thesis using m by simp
  next
    case False
    with m that have "(2::int) ^ (m - 1) < 2 ^ j" by linarith
    then have "m - 1 < j" by (simp add: power_strict_increasing_iff)
    then have "m \<le> j" using False by simp
    then show ?thesis using m by simp
  qed
  with m show ?thesis unfolding smallest_power_of_two_ge_def by blast
qed


subsection \<open>What a successful creation leaves behind\<close>

lemma sdiv_half_ceiling: "0 \<le> n \<Longrightarrow> (n + 1) sdiv 2 = \<lceil>real_of_int n / 2\<rceil>"
proof -
  assume "0 \<le> n"
  then have "(n + 1) sdiv 2 = (n + 1) div 2"
    by (simp add: signed_divide_int_def sgn_if)
  moreover have "\<lceil>real_of_int n / 2\<rceil> = - ((- n) div 2)"
    using ceiling_divide_eq_div [of n 2] by simp
  moreover have "(n + 1) div 2 = - ((- n) div 2)" by presburger
  ultimately show ?thesis by simp
qed

lemma sdiv_2_nonneg: "0 \<le> (n::int) \<Longrightarrow> n sdiv 2 = n div 2"
  by (simp add: signed_divide_int_def sgn_if)

lemma generated_textures_simps [simp]:
  "generated_textures [] = []"
  "generated_textures (c # cs) = generated_name c @ generated_textures cs"
  "generated_textures (xs @ ys) = generated_textures xs @ generated_textures ys"
  by (simp_all add: generated_textures_def)

lemma GL_GetFBO_calls:
  "GL_GetFBO env rd w h = (f, rd', cs) \<Longrightarrow> cs = [] \<or> cs = [glGenFramebuffersEXT (gen_fbo env)]"
  by (auto simp: GL_GetFBO_def Let_def split: option.splits if_splits)

lemma int_mul_Some: "int_mul a b = Some c \<Longrightarrow> c = a * b \<and> int_range (a * b)"
  by (auto simp: int_mul_def split: if_splits)

lemma int_add_Some: "int_add a b = Some c \<Longrightarrow> c = a + b \<and> int_range (a + b)"
  by (auto simp: int_add_def split: if_splits)

lemma size_t_of_int_id: "0 \<le> i \<Longrightarrow> i < 2 ^ 64 \<Longrightarrow> size_t_of_int i = i"
  by (simp add: size_t_of_int_def)

lemma chroma_size_Some:
  assumes "chroma_size h p = Some c" "0 \<le> h" "0 \<le> p"
  shows "c = 2 * \<lceil>real_of_int h / 2\<rceil> * \<lceil>real_of_int p / 2\<rceil> \<and> 0 \<le> c \<and> c \<le> INT_MAX"
proof -
  from assms(1) obtain h1 p1 r2 where
    a: "int_add h 1 = Some h1" "int_add p 1 = Some p1" "int_mul 2 (h1 sdiv 2) = Some r2"
       "int_mul r2 (p1 sdiv 2) = Some c"
    by (auto simp: chroma_size_def split: option.splits)
  from a have c: "c = 2 * ((h + 1) sdiv 2) * ((p + 1) sdiv 2)" and r: "int_range c"
    by (auto dest!: int_mul_Some int_add_Some)
  have "0 \<le> (h + 1) sdiv 2" "0 \<le> (p + 1) sdiv 2"
    using assms(2,3) by (simp_all add: sdiv_2_nonneg)
  then have "0 \<le> c" unfolding c by simp
  with c r assms(2,3) show ?thesis by (simp add: sdiv_half_ceiling int_range_def)
qed

lemma streaming_size_Some:
  assumes "streaming_size f h p = Some size0" "0 \<le> h" "0 \<le> p"
  shows "size0 = h * p +
     (if f = SDL_PIXELFORMAT_YV12 \<or> f = SDL_PIXELFORMAT_IYUV \<or>
         f = SDL_PIXELFORMAT_NV12 \<or> f = SDL_PIXELFORMAT_NV21
      then 2 * \<lceil>real_of_int h / 2\<rceil> * \<lceil>real_of_int p / 2\<rceil> else 0)"
proof -
  from assms(1) obtain plane where pl: "int_mul h p = Some plane"
    by (auto simp: streaming_size_def split: option.splits)
  then have plane: "plane = h * p" "int_range (h * p)" by (auto dest: int_mul_Some)
  have p0: "0 \<le> plane" "plane \<le> INT_MAX" using plane assms(2,3) by (simp_all add: int_range_def)
  then have sp: "size_t_of_int plane = plane" by (simp add: size_t_of_int_id INT_MAX_def)
  define y where "y \<longleftrightarrow> f = SDL_PIXELFORMAT_YV12 \<or> f = SDL_PIXELFORMAT_IYUV"
  define n where "n \<longleftrightarrow> f = SDL_PIXELFORMAT_NV12 \<or> f = SDL_PIXELFORMAT_NV21"
  have yn: "\<not> (y \<and> n)" by (auto simp: y_def n_def)
  have sum: "size_t_of_int (plane + size_t_of_int c) = plane + c \<and>
             c = 2 * \<lceil>real_of_int h / 2\<rceil> * \<lceil>real_of_int p / 2\<rceil>"
    if "chroma_size h p = Some c" for c
    using chroma_size_Some [OF that assms(2,3)] p0 by (simp add: size_t_of_int_id INT_MAX_def)
  from assms(1) have
    "(case (if y then map_option (\<lambda>c. size_t_of_int (size_t_of_int plane + size_t_of_int c))
                        (chroma_size h p)
                 else Some (size_t_of_int plane)) of
             None \<Rightarrow> None
           | Some size1 \<Rightarrow>
               (if n then map_option (\<lambda>c. size_t_of_int (size1 + size_t_of_int c))
                       (chroma_size h p)
                else Some size1)) = Some size0"
    unfolding streaming_size_def y_def [symmetric] n_def [symmetric] by (simp add: pl)
  then have "size0 = plane + (if y \<or> n then 2 * \<lceil>real_of_int h / 2\<rceil> * \<lceil>real_of_int p / 2\<rceil> else 0)"
    using yn sum sp by (auto split: if_splits option.splits)
  then show ?thesis using plane by (simp add: y_def n_def disj_assoc)
qed

lemma streaming_block_Some:
  assumes "streaming_block bpp t = Some (pitch0, pixels0)"
  shows "if tex_access t = SDL_TEXTUREACCESS_STREAMING
         then pitch0 = tex_w t * bpp (tex_format t) \<and>
              (\<exists>size0. pixels0 = Some size0 \<and>
                 streaming_size (tex_format t) (tex_h t) pitch0 = Some size0)
         else pitch0 = 0 \<and> pixels0 = None"
  using assms by (auto simp: streaming_block_def split: if_splits option.splits dest: int_mul_Some)


lemma GL_CreateTexture_Inr:
  assumes "GL_CreateTexture plat bpp env rd world t = Inr (rd', world', t', calls)"
  obtains internalFormat fmt ftype pitch0 pixels0 fbo0 fbo_calls texture_w texture_h tw th
    plane_w plane_h
  where
    "convert_format plat (tex_format t) = Some (internalFormat, fmt, ftype)"
    "streaming_block bpp t = Some (pitch0, pixels0)"
    "fbo_calls = [] \<or> fbo_calls = [glGenFramebuffersEXT (gen_fbo env)]"
    "texture_dims rd (tex_w t) (tex_h t) = Some (texture_w, texture_h, tw, th)"
    "(if (tex_format t = SDL_PIXELFORMAT_YV12 \<or> tex_format t = SDL_PIXELFORMAT_IYUV) \<or>
         (tex_format t = SDL_PIXELFORMAT_NV12 \<or> tex_format t = SDL_PIXELFORMAT_NV21)
      then plane_dims texture_w texture_h else Some (0, 0)) = Some (plane_w, plane_h)"
    "t' = t\<lparr>driverdata := Some
       \<lparr>texture = gen_texture env, texw = tw, texh = th, format = fmt, formattype = ftype,
        pixels = pixels0, pitch = pitch0,
        locked_rect = \<lparr>rect_x = 0, rect_y = 0, rect_w = 0, rect_h = 0\<rparr>,
        yuv = (tex_format t = SDL_PIXELFORMAT_YV12 \<or> tex_format t = SDL_PIXELFORMAT_IYUV),
        nv12 = (tex_format t = SDL_PIXELFORMAT_NV12 \<or> tex_format t = SDL_PIXELFORMAT_NV21),
        utexture = (if (tex_format t = SDL_PIXELFORMAT_YV12 \<or> tex_format t = SDL_PIXELFORMAT_IYUV) \<or>
                       (tex_format t = SDL_PIXELFORMAT_NV12 \<or> tex_format t = SDL_PIXELFORMAT_NV21)
                    then gen_utexture env else 0),
        vtexture = (if tex_format t = SDL_PIXELFORMAT_YV12 \<or> tex_format t = SDL_PIXELFORMAT_IYUV
                    then gen_vtexture env else 0),
        fbo = fbo0\<rparr>\<rparr>"
    "calls = fbo_calls @ [glGenTextures (gen_texture env)] @
       primary_image_calls plat (textype rd)
         (if tex_scaleMode t = SDL_ScaleModeNearest then GL_NEAREST else GL_LINEAR)
         internalFormat fmt ftype texture_w texture_h bpp t pitch0 (gen_texture env) @
       (if tex_format t = SDL_PIXELFORMAT_YV12 \<or> tex_format t = SDL_PIXELFORMAT_IYUV
        then yuv_plane_calls (textype rd)
               (if tex_scaleMode t = SDL_ScaleModeNearest then GL_NEAREST else GL_LINEAR)
               internalFormat fmt ftype plane_w plane_h (gen_utexture env) (gen_vtexture env)
        else []) @
       (if tex_format t = SDL_PIXELFORMAT_NV12 \<or> tex_format t = SDL_PIXELFORMAT_NV21
        then nv12_plane_calls (textype rd)
               (if tex_scaleMode t = SDL_ScaleModeNearest then GL_NEAREST else GL_LINEAR)
               plane_w plane_h (gen_utexture env)
        else [])"
proof -
  define y where "y \<longleftrightarrow> tex_format t = SDL_PIXELFORMAT_YV12 \<or> tex_format t = SDL_PIXELFORMAT_IYUV"
  define n where "n \<longleftrightarrow> tex_format t = SDL_PIXELFORMAT_NV12 \<or> tex_format t = SDL_PIXELFORMAT_NV21"
  obtain a rd0 w0 where act: "GL_ActivateRenderer rd world = (a, rd0, w0)"
    by (metis prod_cases3)
  obtain fbo0 rd1 fbo_calls where g:
    "(if tex_access t = SDL_TEXTUREACCESS_TARGET
      then GL_GetFBO env rd0 (tex_w t) (tex_h t) else (None, rd0, [])) = (fbo0, rd1, fbo_calls)"
    by (metis prod_cases3)
  obtain u rd2 w1 where c0:
    "GL_CheckError_after (if fbo_calls = [] then [] else fbo_errors env) rd1 w0 = (u, rd2, w1)"
    by (metis prod_cases3)
  obtain r1 rd3 w2 where c1: "GL_CheckError_after (gen_errors env) rd2 w1 = (r1, rd3, w2)"
    by (metis prod_cases3)
  obtain r2 rd4 w3 where c2: "GL_CheckError_after (teximage_errors env) rd3 w2 = (r2, rd4, w3)"
    by (metis prod_cases3)
  obtain r3 rd5 w4 where c3: "GL_CheckError_after (plane_errors env) rd4 w3 = (r3, rd5, w4)"
    by (metis prod_cases3)
  have fc: "fbo_calls = [] \<or> fbo_calls = [glGenFramebuffersEXT (gen_fbo env)]"
    using g GL_GetFBO_calls [of env rd0 "tex_w t" "tex_h t" fbo0 rd1 fbo_calls]
    by (auto split: if_splits)
  note defs = GL_CreateTexture_def act
  from assms obtain trip where cf0: "convert_format plat (tex_format t) = Some trip"
    by (cases "convert_format plat (tex_format t)") (auto simp: defs split: if_splits)
  obtain internalFormat fmt ftype where trip: "trip = (internalFormat, fmt, ftype)"
    by (cases trip) auto
  note cf = cf0 [unfolded trip]
  from assms obtain sb0 where sb0: "streaming_block bpp t = Some sb0"
    by (cases "streaming_block bpp t") (auto simp: defs cf split: if_splits)
  obtain pitch0 pixels0 where sbp: "sb0 = (pitch0, pixels0)" by (cases sb0) auto
  note sb = sb0 [unfolded sbp]
  from assms obtain quad where td0: "texture_dims rd (tex_w t) (tex_h t) = Some quad"
    by (cases "texture_dims rd (tex_w t) (tex_h t)")
       (auto simp: defs cf sb g c0 c1 split: if_splits)
  obtain texture_w texture_h tw th where quad: "quad = (texture_w, texture_h, tw, th)"
    by (cases quad) auto
  note td = td0 [unfolded quad]
  from assms obtain pd0 where pd0:
    "(if y \<or> n then plane_dims texture_w texture_h else Some (0, 0)) = Some pd0"
    unfolding y_def n_def
    by (cases "(if (tex_format t = SDL_PIXELFORMAT_YV12 \<or> tex_format t = SDL_PIXELFORMAT_IYUV) \<or>
         (tex_format t = SDL_PIXELFORMAT_NV12 \<or> tex_format t = SDL_PIXELFORMAT_NV21)
      then plane_dims texture_w texture_h else Some (0, 0))")
       (auto simp: defs cf sb g c0 c1 c2 td Let_def split: if_splits)
  obtain plane_w plane_h where pdp: "pd0 = (plane_w, plane_h)" by (cases pd0) auto
  note pd = pd0 [unfolded pdp]
  from assms cf sb g c0 c1 c2 c3 td pd act
  have res: "t' = t\<lparr>driverdata := Some
       \<lparr>texture = gen_texture env, texw = tw, texh = th, format = fmt, formattype = ftype,
        pixels = pixels0, pitch = pitch0,
        locked_rect = \<lparr>rect_x = 0, rect_y = 0, rect_w = 0, rect_h = 0\<rparr>,
        yuv = y, nv12 = n,
        utexture = (if y \<or> n then gen_utexture env else 0),
        vtexture = (if y then gen_vtexture env else 0),
        fbo = fbo0\<rparr>\<rparr> \<and>
    calls = fbo_calls @ [glGenTextures (gen_texture env)] @
       primary_image_calls plat (textype rd)
         (if tex_scaleMode t = SDL_ScaleModeNearest then GL_NEAREST else GL_LINEAR)
         internalFormat fmt ftype texture_w texture_h bpp t pitch0 (gen_texture env) @
       (if y
        then yuv_plane_calls (textype rd)
               (if tex_scaleMode t = SDL_ScaleModeNearest then GL_NEAREST else GL_LINEAR)
               internalFormat fmt ftype plane_w plane_h (gen_utexture env) (gen_vtexture env)
        else []) @
       (if n
        then nv12_plane_calls (textype rd)
               (if tex_scaleMode t = SDL_ScaleModeNearest then GL_NEAREST else GL_LINEAR)
               plane_w plane_h (gen_utexture env)
        else [])"
    unfolding GL_CreateTexture_def Let_def y_def [symmetric] n_def [symmetric]
    by (auto split: if_splits)
  show ?thesis
    by (rule that [OF cf sb fc td pd [unfolded y_def n_def]
          conjunct1 [OF res, unfolded y_def n_def] conjunct2 [OF res, unfolded y_def n_def]])
qed


lemma created_calls_read:
  assumes "fbo_calls = [] \<or> fbo_calls = [glGenFramebuffersEXT f]"
  shows "texture_images (fbo_calls @ [glGenTextures g] @
       primary_image_calls plat ttype sm internalFormat fmt ftype texture_w texture_h bpp t
         pitch0 g @
       (if y then yuv_plane_calls ttype sm internalFormat fmt ftype plane_w plane_h u v else []) @
       (if n then nv12_plane_calls ttype sm plane_w plane_h u else [])) =
     (Some g, texture_w, texture_h) #
       (if y then [(Some u, plane_w, plane_h), (Some v, plane_w, plane_h)] else []) @
       (if n then [(Some u, plane_w, plane_h)] else [])"
    and "generated_textures (fbo_calls @ [glGenTextures g] @
       primary_image_calls plat ttype sm internalFormat fmt ftype texture_w texture_h bpp t
         pitch0 g @
       (if y then yuv_plane_calls ttype sm internalFormat fmt ftype plane_w plane_h u v else []) @
       (if n then nv12_plane_calls ttype sm plane_w plane_h u else [])) =
     g # (if y then [u, v] else []) @ (if n then [u] else [])"
  using assms
  by (auto simp: texture_images_def primary_image_calls_def yuv_plane_calls_def
      nv12_plane_calls_def)

lemma GL_CheckAllErrors_value:
  "fst (GL_CheckAllErrors data world) = GL_CheckError data (\<not> no_error_recorded data world)"
  by (simp add: GL_CheckAllErrors_def GL_CheckError_def GL_ClearErrors_def no_error_recorded_def)

lemma GL_CheckError_after_clears:
  "GL_CheckError_after errs d w = (r, d', w') \<Longrightarrow> no_error_recorded d' w'"
  by (auto simp: GL_CheckError_after_def driver_reports_def GL_CheckAllErrors_def
      GL_ClearErrors_def no_error_recorded_def split: if_splits)

lemma GL_CheckError_after_none:
  "no_error_recorded d w \<Longrightarrow> GL_CheckError_after [] d w = (0, d, w)"
  by (auto simp: GL_CheckError_after_def driver_reports_def GL_CheckAllErrors_def
      no_error_recorded_def split: if_splits)

lemma power_of_2_positive: "power_of_2 input = Some p \<Longrightarrow> 0 < p"
  using power_of_2_smallest [of input p] by (auto simp: smallest_power_of_two_ge_def)

lemma power_of_2_total: "input \<le> 2 ^ 30 \<Longrightarrow> \<exists>p. power_of_2 input = Some p"
  unfolding power_of_2_def by (rule power_of_2_loop_total) simp_all

lemma power_of_2_le: "power_of_2 input = Some p \<Longrightarrow> input \<le> 2 ^ j \<Longrightarrow> p \<le> 2 ^ j"
  using power_of_2_smallest [of input p] by (auto simp: smallest_power_of_two_ge_def)

lemma texture_dims_in_range:
  assumes "0 \<le> w" "w \<le> 2 ^ 30" "0 \<le> h" "h \<le> 2 ^ 30"
  shows "\<exists>texture_w texture_h tw th.
     texture_dims rd w h = Some (texture_w, texture_h, tw, th) \<and>
     0 \<le> texture_w \<and> texture_w \<le> 2 ^ 30 \<and> 0 \<le> texture_h \<and> texture_h \<le> 2 ^ 30"
proof (cases "GL_ARB_texture_non_power_of_two_supported rd \<or> GL_ARB_texture_rectangle_supported rd")
  case True
  with assms show ?thesis by (auto simp: texture_dims_def)
next
  case False
  from assms obtain pw ph where p: "power_of_2 w = Some pw" "power_of_2 h = Some ph"
    using power_of_2_total [of w] power_of_2_total [of h] by auto
  have "pw \<le> 2 ^ 30" "ph \<le> 2 ^ 30"
    using power_of_2_le [OF p(1), of 30] power_of_2_le [OF p(2), of 30] assms by simp_all
  with p False power_of_2_positive [OF p(1)] power_of_2_positive [OF p(2)] show ?thesis
    by (simp add: texture_dims_def)
qed

lemma plane_dims_in_range:
  "0 \<le> w \<Longrightarrow> w \<le> 2 ^ 30 \<Longrightarrow> 0 \<le> h \<Longrightarrow> h \<le> 2 ^ 30 \<Longrightarrow> \<exists>pd. plane_dims w h = Some pd"
  by (simp add: plane_dims_def int_add_def int_range_def INT_MAX_def)

lemma streaming_block_in_range:
  assumes "request_in_range bpp t"
  shows "\<exists>sb. streaming_block bpp t = Some sb"
proof (cases "tex_access t = SDL_TEXTUREACCESS_STREAMING")
  case False
  then show ?thesis by (simp add: streaming_block_def)
next
  case True
  define w where "w = tex_w t"
  define h where "h = tex_h t"
  define b where "b = bpp (tex_format t)"
  from assms True have r: "0 \<le> w" "w \<le> 16384" "0 \<le> h" "h \<le> 16384" "0 \<le> b" "b \<le> 4"
    by (simp_all add: request_in_range_def w_def h_def b_def)
  define p where "p = w * b"
  have p: "0 \<le> p" "p \<le> 65536"
    using r mult_mono [of w 16384 b 4] by (simp_all add: p_def)
  have hp: "0 \<le> h * p" "h * p \<le> 1073741824"
    using r p mult_mono [of h 16384 p 65536] by simp_all
  define a where "a = 2 * ((h + 1) sdiv 2)"
  define c where "c = (p + 1) sdiv 2"
  have a: "0 \<le> a" "a \<le> 16386" using r by (simp_all add: a_def sdiv_2_nonneg)
  have c: "0 \<le> c" "c \<le> 32769" using p by (simp_all add: c_def sdiv_2_nonneg)
  have ac: "0 \<le> a * c" "a * c \<le> 16386 * 32769"
    using a c mult_mono [of a 16386 c 32769] by simp_all
  have m1: "int_mul w b = Some p" using p by (simp add: int_mul_def int_range_def INT_MAX_def p_def)
  have m2: "int_mul h p = Some (h * p)" using hp by (simp add: int_mul_def int_range_def INT_MAX_def)
  have ch: "chroma_size h p = Some (a * c)"
    using r p a ac
    by (simp add: chroma_size_def int_add_def int_mul_def int_range_def INT_MAX_def
        a_def [symmetric] c_def [symmetric])
  have "\<exists>s. streaming_size (tex_format t) h p = Some s"
    by (simp add: streaming_size_def m2 ch)
  then show ?thesis
    using True m1 by (auto simp: streaming_block_def w_def h_def b_def)
qed

lemma GL_CreateTexture_succeeds:
  assumes "creation_unhindered plat env rd t" "request_in_range bpp t"
  shows "\<exists>r. GL_CreateTexture plat bpp env rd world t = Inr r"
proof -
  define y where "y \<longleftrightarrow> tex_format t = SDL_PIXELFORMAT_YV12 \<or> tex_format t = SDL_PIXELFORMAT_IYUV"
  define n where "n \<longleftrightarrow> tex_format t = SDL_PIXELFORMAT_NV12 \<or> tex_format t = SDL_PIXELFORMAT_NV21"
  from assms(1) have u:
    "\<not> (tex_access t = SDL_TEXTUREACCESS_TARGET \<and> \<not> GL_EXT_framebuffer_object_supported rd)"
    "calloc_data_ok env" "calloc_pixels_ok env"
    "gen_errors env = []" "teximage_errors env = []" "plane_errors env = []"
    by (auto simp: creation_unhindered_def)
  from assms(1) obtain internalFormat fmt ftype where
    cf: "convert_format plat (tex_format t) = Some (internalFormat, fmt, ftype)"
    by (auto simp: creation_unhindered_def)
  from streaming_block_in_range [OF assms(2)] obtain pitch0 pixels0 where
    sb: "streaming_block bpp t = Some (pitch0, pixels0)" by auto
  from assms(2) have r: "0 \<le> tex_w t" "tex_w t \<le> 2 ^ 30" "0 \<le> tex_h t" "tex_h t \<le> 2 ^ 30"
    by (simp_all add: request_in_range_def)
  from texture_dims_in_range [OF r, of rd] obtain texture_w texture_h tw th where
    td: "texture_dims rd (tex_w t) (tex_h t) = Some (texture_w, texture_h, tw, th)" and
    tr: "0 \<le> texture_w" "texture_w \<le> 2 ^ 30" "0 \<le> texture_h" "texture_h \<le> 2 ^ 30"
    by blast
  from plane_dims_in_range [OF tr] obtain plane_w plane_h where
    pd: "(if y \<or> n then plane_dims texture_w texture_h else Some (0, 0)) = Some (plane_w, plane_h)"
    by (cases "y \<or> n") auto
  obtain a rd0 w0 where act: "GL_ActivateRenderer rd world = (a, rd0, w0)"
    by (metis prod_cases3)
  obtain fbo0 rd1 fbo_calls where g:
    "(if tex_access t = SDL_TEXTUREACCESS_TARGET
      then GL_GetFBO env rd0 (tex_w t) (tex_h t) else (None, rd0, [])) = (fbo0, rd1, fbo_calls)"
    by (metis prod_cases3)
  obtain v rd2 w1 where c0:
    "GL_CheckError_after (if fbo_calls = [] then [] else fbo_errors env) rd1 w0 = (v, rd2, w1)"
    by (metis prod_cases3)
  have c1: "GL_CheckError_after [] rd2 w1 = (0, rd2, w1)"
    by (rule GL_CheckError_after_none [OF GL_CheckError_after_clears [OF c0]])
  show ?thesis
    unfolding GL_CreateTexture_def Let_def y_def [symmetric] n_def [symmetric]
    using u cf sb td pd act g c0 c1 by simp
qed


lemma GL_CreateTexture_data:
  assumes "GL_CreateTexture plat bpp env rd world t = Inr (rd', world', t', calls)"
  obtains data texture_w texture_h plane_w plane_h where
    "driverdata t' = Some data"
    "texture_dims rd (tex_w t) (tex_h t) = Some (texture_w, texture_h, texw data, texh data)"
    "streaming_block bpp t = Some (pitch data, pixels data)"
    "(if (tex_format t = SDL_PIXELFORMAT_YV12 \<or> tex_format t = SDL_PIXELFORMAT_IYUV) \<or>
         (tex_format t = SDL_PIXELFORMAT_NV12 \<or> tex_format t = SDL_PIXELFORMAT_NV21)
      then plane_dims texture_w texture_h else Some (0, 0)) = Some (plane_w, plane_h)"
    "yuv data \<longleftrightarrow> tex_format t = SDL_PIXELFORMAT_YV12 \<or> tex_format t = SDL_PIXELFORMAT_IYUV"
    "nv12 data \<longleftrightarrow> tex_format t = SDL_PIXELFORMAT_NV12 \<or> tex_format t = SDL_PIXELFORMAT_NV21"
    "texture_images calls = (Some (texture data), texture_w, texture_h) #
       map (\<lambda>name. (Some name, plane_w, plane_h)) (auxiliary_names data)"
    "generated_textures calls = texture data # auxiliary_names data"
    "texture data = gen_texture env"
    "utexture data = (if (tex_format t = SDL_PIXELFORMAT_YV12 \<or> tex_format t = SDL_PIXELFORMAT_IYUV) \<or>
                       (tex_format t = SDL_PIXELFORMAT_NV12 \<or> tex_format t = SDL_PIXELFORMAT_NV21)
                    then gen_utexture env else 0)"
    "vtexture data = (if tex_format t = SDL_PIXELFORMAT_YV12 \<or> tex_format t = SDL_PIXELFORMAT_IYUV
                    then gen_vtexture env else 0)"
proof -
  from assms obtain internalFormat fmt ftype pitch0 pixels0 fbo0 fbo_calls texture_w texture_h
    tw th plane_w plane_h
  where
    sb: "streaming_block bpp t = Some (pitch0, pixels0)" and
    fc: "fbo_calls = [] \<or> fbo_calls = [glGenFramebuffersEXT (gen_fbo env)]" and
    td: "texture_dims rd (tex_w t) (tex_h t) = Some (texture_w, texture_h, tw, th)" and
    pd: "(if (tex_format t = SDL_PIXELFORMAT_YV12 \<or> tex_format t = SDL_PIXELFORMAT_IYUV) \<or>
         (tex_format t = SDL_PIXELFORMAT_NV12 \<or> tex_format t = SDL_PIXELFORMAT_NV21)
      then plane_dims texture_w texture_h else Some (0, 0)) = Some (plane_w, plane_h)" and
    t': "t' = t\<lparr>driverdata := Some
       \<lparr>texture = gen_texture env, texw = tw, texh = th, format = fmt, formattype = ftype,
        pixels = pixels0, pitch = pitch0,
        locked_rect = \<lparr>rect_x = 0, rect_y = 0, rect_w = 0, rect_h = 0\<rparr>,
        yuv = (tex_format t = SDL_PIXELFORMAT_YV12 \<or> tex_format t = SDL_PIXELFORMAT_IYUV),
        nv12 = (tex_format t = SDL_PIXELFORMAT_NV12 \<or> tex_format t = SDL_PIXELFORMAT_NV21),
        utexture = (if (tex_format t = SDL_PIXELFORMAT_YV12 \<or> tex_format t = SDL_PIXELFORMAT_IYUV) \<or>
                       (tex_format t = SDL_PIXELFORMAT_NV12 \<or> tex_format t = SDL_PIXELFORMAT_NV21)
                    then gen_utexture env else 0),
        vtexture = (if tex_format t = SDL_PIXELFORMAT_YV12 \<or> tex_format t = SDL_PIXELFORMAT_IYUV
                    then gen_vtexture env else 0),
        fbo = fbo0\<rparr>\<rparr>" and
    calls: "calls = fbo_calls @ [glGenTextures (gen_texture env)] @
       primary_image_calls plat (textype rd)
         (if tex_scaleMode t = SDL_ScaleModeNearest then GL_NEAREST else GL_LINEAR)
         internalFormat fmt ftype texture_w texture_h bpp t pitch0 (gen_texture env) @
       (if tex_format t = SDL_PIXELFORMAT_YV12 \<or> tex_format t = SDL_PIXELFORMAT_IYUV
        then yuv_plane_calls (textype rd)
               (if tex_scaleMode t = SDL_ScaleModeNearest then GL_NEAREST else GL_LINEAR)
               internalFormat fmt ftype plane_w plane_h (gen_utexture env) (gen_vtexture env)
        else []) @
       (if tex_format t = SDL_PIXELFORMAT_NV12 \<or> tex_format t = SDL_PIXELFORMAT_NV21
        then nv12_plane_calls (textype rd)
               (if tex_scaleMode t = SDL_ScaleModeNearest then GL_NEAREST else GL_LINEAR)
               plane_w plane_h (gen_utexture env)
        else [])"
    by (rule GL_CreateTexture_Inr)
  obtain data where d: "driverdata t' = Some data" "texw data = tw" "texh data = th"
    "pitch data = pitch0" "pixels data = pixels0" "texture data = gen_texture env"
    "yuv data \<longleftrightarrow> tex_format t = SDL_PIXELFORMAT_YV12 \<or> tex_format t = SDL_PIXELFORMAT_IYUV"
    "nv12 data \<longleftrightarrow> tex_format t = SDL_PIXELFORMAT_NV12 \<or> tex_format t = SDL_PIXELFORMAT_NV21"
    "utexture data = (if (tex_format t = SDL_PIXELFORMAT_YV12 \<or> tex_format t = SDL_PIXELFORMAT_IYUV) \<or>
                       (tex_format t = SDL_PIXELFORMAT_NV12 \<or> tex_format t = SDL_PIXELFORMAT_NV21)
                    then gen_utexture env else 0)"
    "vtexture data = (if tex_format t = SDL_PIXELFORMAT_YV12 \<or> tex_format t = SDL_PIXELFORMAT_IYUV
                    then gen_vtexture env else 0)"
    unfolding t' by simp
  have imgs: "texture_images calls = (Some (texture data), texture_w, texture_h) #
       map (\<lambda>name. (Some name, plane_w, plane_h)) (auxiliary_names data)"
    unfolding calls created_calls_read(1) [OF fc] auxiliary_names_def
    using d(6-10) by (cases "tex_format t") simp_all
  have gens: "generated_textures calls = texture data # auxiliary_names data"
    unfolding calls created_calls_read(2) [OF fc] auxiliary_names_def
    using d(6-10) by (cases "tex_format t") simp_all
  show ?thesis
    by (rule that [OF d(1) td [folded d(2) d(3)] sb [folded d(4) d(5)] pd d(7) d(8) imgs gens
          d(6) d(9) d(10)])
qed


text \<open>The requests of the examples are in range, and nothing hinders them.\<close>

lemma example_unhindered:
  assumes "convert_format OTHER_PLATFORM f \<noteq> None"
  shows "creation_unhindered OTHER_PLATFORM example_env example_renderdata
           (example_texture f a w h)"
    and "creation_unhindered OTHER_PLATFORM example_env example_rectangle_renderdata
           (example_texture f a w h)"
    and "creation_unhindered OTHER_PLATFORM example_env example_arbitrary_renderdata
           (example_texture f a w h)"
  using assms
  by (simp_all add: creation_unhindered_def example_env_def example_renderdata_def
      example_rectangle_renderdata_def example_arbitrary_renderdata_def example_texture_def)

lemma example_in_range:
  assumes "0 \<le> w" "w \<le> 16384" "0 \<le> h" "h \<le> 16384"
  shows "request_in_range example_bytesperpixel (example_texture f a w h)"
  using assms by (cases f) (simp_all add: request_in_range_def example_texture_def)

lemma example_checks:
  "GL_ActivateRenderer example_renderdata example_world =
     (0, example_renderdata, example_world\<lparr>current_context := Some 1\<rparr>)"
  "GL_CheckError_after [] example_renderdata w = (0, example_renderdata, w)"
  "GL_ActivateRenderer example_rectangle_renderdata example_world =
     (0, example_rectangle_renderdata, example_world\<lparr>current_context := Some 1\<rparr>)"
  "GL_CheckError_after [] example_rectangle_renderdata w = (0, example_rectangle_renderdata, w)"
  by (simp_all add: GL_ActivateRenderer_def GL_ClearErrors_def GL_CheckError_after_def
      driver_reports_def GL_CheckAllErrors_def example_renderdata_def example_world_def
      example_rectangle_renderdata_def)

lemma power_of_2_examples:
  "power_of_2 5 = Some 8" "power_of_2 3 = Some 4"
  by (simp_all add: power_of_2_def power_of_2_loop.simps INT_MAX_def)


subsection \<open>The pixel block of a streaming texture\<close>

text \<open>
  Claim C2, as the code has it. A successfully created streaming texture of height
  \<open>h \<ge> 0\<close> has the pitch \<open>w\<close> times bytes-per-pixel (taken non-negative), and its pixel
  block has \<open>h * pitch + 2 * ceil(h/2) * ceil(pitch/2)\<close> bytes for the three-plane formats
  YV12 and IYUV and the same \<open>h * pitch + 2 * ceil(h/2) * ceil(pitch/2)\<close> bytes for the
  two-plane formats NV12 and NV21 (whose single chroma plane interleaves two bytes per
  sample); for every other format it has \<open>h * pitch\<close> bytes. A creation in which one of
  these \<open>int\<close> computations overflows has no result; every request in range that
  nothing hinders is created successfully.
\<close>

theorem streaming_buffer_size:
  "(GL_CreateTexture plat bpp env rd world t = Inr (rd', world', t', calls) \<and>
    tex_access t = SDL_TEXTUREACCESS_STREAMING \<and>
    0 \<le> tex_h t \<and> 0 \<le> tex_w t * bpp (tex_format t) \<longrightarrow>
      (\<exists>data. driverdata t' = Some data \<and>
         pitch data = tex_w t * bpp (tex_format t) \<and>
         (tex_format t = SDL_PIXELFORMAT_YV12 \<or> tex_format t = SDL_PIXELFORMAT_IYUV \<longrightarrow>
            pixels data = Some (tex_h t * pitch data +
              2 * \<lceil>real_of_int (tex_h t) / 2\<rceil> * \<lceil>real_of_int (pitch data) / 2\<rceil>)) \<and>
         (tex_format t = SDL_PIXELFORMAT_NV12 \<or> tex_format t = SDL_PIXELFORMAT_NV21 \<longrightarrow>
            pixels data = Some (tex_h t * pitch data +
              2 * \<lceil>real_of_int (tex_h t) / 2\<rceil> * \<lceil>real_of_int (pitch data) / 2\<rceil>)) \<and>
         (auxiliary_planes (tex_format t) = 0 \<longrightarrow>
            pixels data = Some (tex_h t * pitch data)))) \<and>
   (creation_unhindered plat env rd t \<and> request_in_range bpp t \<longrightarrow>
      (\<exists>r. GL_CreateTexture plat bpp env rd world t = Inr r))"
proof (intro conjI impI)
  assume a: "GL_CreateTexture plat bpp env rd world t = Inr (rd', world', t', calls) \<and>
    tex_access t = SDL_TEXTUREACCESS_STREAMING \<and>
    0 \<le> tex_h t \<and> 0 \<le> tex_w t * bpp (tex_format t)"
  then obtain data where d: "driverdata t' = Some data"
    "streaming_block bpp t = Some (pitch data, pixels data)"
    by (auto elim: GL_CreateTexture_data)
  from streaming_block_Some [OF d(2)] a obtain size0 where
    p: "pitch data = tex_w t * bpp (tex_format t)" "pixels data = Some size0"
    "streaming_size (tex_format t) (tex_h t) (pitch data) = Some size0"
    by auto
  from a p(1) have nn: "0 \<le> tex_h t" "0 \<le> pitch data" by simp_all
  have "auxiliary_planes (tex_format t) = 0 \<longrightarrow>
     \<not> (tex_format t = SDL_PIXELFORMAT_YV12 \<or> tex_format t = SDL_PIXELFORMAT_IYUV \<or>
         tex_format t = SDL_PIXELFORMAT_NV12 \<or> tex_format t = SDL_PIXELFORMAT_NV21)"
    by (cases "tex_format t") simp_all
  with streaming_size_Some [OF p(3) nn] d(1) p(1,2)
  show "\<exists>data. driverdata t' = Some data \<and>
         pitch data = tex_w t * bpp (tex_format t) \<and>
         (tex_format t = SDL_PIXELFORMAT_YV12 \<or> tex_format t = SDL_PIXELFORMAT_IYUV \<longrightarrow>
            pixels data = Some (tex_h t * pitch data +
              2 * \<lceil>real_of_int (tex_h t) / 2\<rceil> * \<lceil>real_of_int (pitch data) / 2\<rceil>)) \<and>
         (tex_format t = SDL_PIXELFORMAT_NV12 \<or> tex_format t = SDL_PIXELFORMAT_NV21 \<longrightarrow>
            pixels data = Some (tex_h t * pitch data +
              2 * \<lceil>real_of_int (tex_h t) / 2\<rceil> * \<lceil>real_of_int (pitch data) / 2\<rceil>)) \<and>
         (auxiliary_planes (tex_format t) = 0 \<longrightarrow>
            pixels data = Some (tex_h t * pitch data))"
    by (intro exI [of _ data]) auto
next
  assume "creation_unhindered plat env rd t \<and> request_in_range bpp t"
  then show "\<exists>r. GL_CreateTexture plat bpp env rd world t = Inr r"
    using GL_CreateTexture_succeeds [of plat env rd t bpp world] by blast
qed

text \<open>
  Streaming textures on the example renderer. YV12 of 5 by 3 pixels: pitch 5 and
  15 + 2 * 2 * 3 = 27 bytes. NV12 of 4 by 4 pixels: pitch 4 and 16 + 2 * 2 * 2 = 24 bytes.
  ARGB8888 of 5 by 3 pixels: pitch 20 and 60 bytes.
\<close>

theorem streaming_buffer_size_witness:
  "(\<exists>rd' world' t' calls data.
      GL_CreateTexture OTHER_PLATFORM example_bytesperpixel example_env example_renderdata
        example_world (example_texture SDL_PIXELFORMAT_YV12 SDL_TEXTUREACCESS_STREAMING 5 3) =
        Inr (rd', world', t', calls) \<and>
      driverdata t' = Some data \<and> pitch data = 5 \<and> pixels data = Some 27) \<and>
   (\<exists>rd' world' t' calls data.
      GL_CreateTexture OTHER_PLATFORM example_bytesperpixel example_env example_renderdata
        example_world (example_texture SDL_PIXELFORMAT_NV12 SDL_TEXTUREACCESS_STREAMING 4 4) =
        Inr (rd', world', t', calls) \<and>
      driverdata t' = Some data \<and> pitch data = 4 \<and> pixels data = Some 24) \<and>
   (\<exists>rd' world' t' calls data.
      GL_CreateTexture OTHER_PLATFORM example_bytesperpixel example_env example_renderdata
        example_world (example_texture SDL_PIXELFORMAT_ARGB8888 SDL_TEXTUREACCESS_STREAMING 5 3) =
        Inr (rd', world', t', calls) \<and>
      driverdata t' = Some data \<and> pitch data = 20 \<and> pixels data = Some 60)"
proof -
  have gen: "\<exists>rd' world' t' calls data.
      GL_CreateTexture OTHER_PLATFORM example_bytesperpixel example_env example_renderdata
        example_world (example_texture f SDL_TEXTUREACCESS_STREAMING w h) =
        Inr (rd', world', t', calls) \<and>
      driverdata t' = Some data \<and> pitch data = p \<and> pixels data = Some s"
    if "0 \<le> w" "w \<le> 16384" "0 \<le> h" "h \<le> 16384"
      "convert_format OTHER_PLATFORM f \<noteq> None"
      "p = w * example_bytesperpixel f"
      "s = h * p + (if auxiliary_planes f = 0 then 0
                    else 2 * \<lceil>real_of_int h / 2\<rceil> * \<lceil>real_of_int p / 2\<rceil>)"
    for f w h p s
  proof -
    let ?t = "example_texture f SDL_TEXTUREACCESS_STREAMING w h"
    note inst = streaming_buffer_size [where plat = OTHER_PLATFORM
        and bpp = example_bytesperpixel and env = example_env and rd = example_renderdata
        and world = example_world and t = ?t]
    from inst example_unhindered(1) [OF that(5)] example_in_range [OF that(1-4)]
    obtain rd' world' t' calls where e:
      "GL_CreateTexture OTHER_PLATFORM example_bytesperpixel example_env example_renderdata
         example_world ?t = Inr (rd', world', t', calls)"
      by (metis prod_cases4)
    have t: "tex_access ?t = SDL_TEXTUREACCESS_STREAMING" "tex_h ?t = h" "tex_w ?t = w"
      "tex_format ?t = f"
      by (simp_all add: example_texture_def)
    have nn: "0 \<le> w * example_bytesperpixel f" using that(1) by (cases f) simp_all
    from inst [of rd' world' t' calls] e that(3) nn
    obtain data where d: "driverdata t' = Some data" "pitch data = w * example_bytesperpixel f"
      "f = SDL_PIXELFORMAT_YV12 \<or> f = SDL_PIXELFORMAT_IYUV \<longrightarrow>
         pixels data = Some (h * pitch data +
              2 * \<lceil>real_of_int h / 2\<rceil> * \<lceil>real_of_int (pitch data) / 2\<rceil>)"
      "f = SDL_PIXELFORMAT_NV12 \<or> f = SDL_PIXELFORMAT_NV21 \<longrightarrow>
         pixels data = Some (h * pitch data +
              2 * \<lceil>real_of_int h / 2\<rceil> * \<lceil>real_of_int (pitch data) / 2\<rceil>)"
      "auxiliary_planes f = 0 \<longrightarrow> pixels data = Some (h * pitch data)"
      unfolding t by auto
    from d that(6,7) have "pitch data = p" "pixels data = Some s"
      by (cases f; simp)+
    with e d(1) show ?thesis by blast
  qed
  have c: "\<lceil>(3::real) / 2\<rceil> = 2" "\<lceil>(5::real) / 2\<rceil> = 3" "\<lceil>(4::real) / 2\<rceil> = 2"
    by (simp_all add: ceiling_eq_iff)
  show ?thesis
    using gen [of 5 3 SDL_PIXELFORMAT_YV12 5 27] gen [of 4 4 SDL_PIXELFORMAT_NV12 4 24]
      gen [of 5 3 SDL_PIXELFORMAT_ARGB8888 20 60] c
    by simp
qed

text \<open>
  An NV12 streaming texture of 4 by 4 pixels gets 24 bytes, not the
  \<open>4 * 4 + 1 * ceil(4/2) * ceil(4/2) = 20\<close> bytes of a single factor.
\<close>

theorem two_plane_buffer_size_counterexample:
  "map_option pixels (created_data
     (GL_CreateTexture OTHER_PLATFORM example_bytesperpixel example_env example_renderdata
        example_world (example_texture SDL_PIXELFORMAT_NV12 SDL_TEXTUREACCESS_STREAMING 4 4))) =
     Some (Some 24)
   \<and> (24::int) \<noteq> 4 * 4 + 1 * \<lceil>(4::real) / 2\<rceil> * \<lceil>(4::real) / 2\<rceil>"
proof -
  have sb: "streaming_block example_bytesperpixel
      (example_texture SDL_PIXELFORMAT_NV12 SDL_TEXTUREACCESS_STREAMING 4 4) = Some (4, Some 24)"
    by (simp add: streaming_block_def streaming_size_def chroma_size_def int_mul_def int_add_def
        int_range_def INT_MAX_def size_t_of_int_def example_texture_def signed_divide_int_def)
  have td: "texture_dims example_renderdata 4 4 =
     Some (4, 4, float32_div (float32_of_int 4) (float32_of_int 4),
           float32_div (float32_of_int 4) (float32_of_int 4))"
    by (simp add: texture_dims_def example_renderdata_def power_of_2_def power_of_2_loop.simps
        INT_MAX_def)
  have pd: "plane_dims 4 4 = Some (2, 2)"
    by (simp add: plane_dims_def int_add_def int_range_def INT_MAX_def signed_divide_int_def)
  have t: "tex_access (example_texture SDL_PIXELFORMAT_NV12 SDL_TEXTUREACCESS_STREAMING 4 4) =
      SDL_TEXTUREACCESS_STREAMING"
    "tex_format (example_texture SDL_PIXELFORMAT_NV12 SDL_TEXTUREACCESS_STREAMING 4 4) =
      SDL_PIXELFORMAT_NV12"
    "tex_w (example_texture SDL_PIXELFORMAT_NV12 SDL_TEXTUREACCESS_STREAMING 4 4) = 4"
    "tex_h (example_texture SDL_PIXELFORMAT_NV12 SDL_TEXTUREACCESS_STREAMING 4 4) = 4"
    by (simp_all add: example_texture_def)
  have e: "calloc_data_ok example_env" "calloc_pixels_ok example_env"
    "gen_errors example_env = []" "teximage_errors example_env = []"
    "plane_errors example_env = []"
    by (simp_all add: example_env_def)
  show ?thesis
    by (simp add: GL_CreateTexture_def created_data_def example_checks sb td pd t e Let_def)
qed


subsection \<open>Texture dimensions and scale factors\<close>





subsection \<open>Auxiliary textures\<close>

text \<open>
  Claim C8. For a successfully created texture (of non-negative requested size) the
  texture names generated are that of the primary texture followed by those of its
  auxiliary textures, and the images allocated are one for the primary texture followed
  by one for each auxiliary texture, each allocated while that texture is bound. The
  auxiliary textures depend on the pixel format only: two (U and V) for YV12 and IYUV,
  one for NV12 and NV21, none for any other format; and every auxiliary image has the
  dimensions \<open>ceil(w/2)\<close>, \<open>ceil(h/2)\<close> of the allocated primary dimensions \<open>w\<close>, \<open>h\<close>.
  Every request in range that nothing hinders is created successfully.
\<close>

theorem auxiliary_textures:
  "(GL_CreateTexture plat bpp env rd world t = Inr (rd', world', t', calls) \<and>
    0 \<le> tex_w t \<and> 0 \<le> tex_h t \<longrightarrow>
     (\<exists>data texture_w texture_h.
        driverdata t' = Some data \<and>
        texture_images calls = (Some (texture data), texture_w, texture_h) #
          map (\<lambda>name. (Some name, \<lceil>real_of_int texture_w / 2\<rceil>, \<lceil>real_of_int texture_h / 2\<rceil>))
            (auxiliary_names data) \<and>
        generated_textures calls = texture data # auxiliary_names data \<and>
        length (auxiliary_names data) = auxiliary_planes (tex_format t) \<and>
        (tex_format t = SDL_PIXELFORMAT_YV12 \<or> tex_format t = SDL_PIXELFORMAT_IYUV \<longrightarrow>
           auxiliary_names data = [utexture data, vtexture data]) \<and>
        (tex_format t = SDL_PIXELFORMAT_NV12 \<or> tex_format t = SDL_PIXELFORMAT_NV21 \<longrightarrow>
           auxiliary_names data = [utexture data]) \<and>
        (tex_format t \<noteq> SDL_PIXELFORMAT_YV12 \<and> tex_format t \<noteq> SDL_PIXELFORMAT_IYUV \<and>
         tex_format t \<noteq> SDL_PIXELFORMAT_NV12 \<and> tex_format t \<noteq> SDL_PIXELFORMAT_NV21 \<longrightarrow>
           auxiliary_names data = []))) \<and>
   (creation_unhindered plat env rd t \<and> request_in_range bpp t \<longrightarrow>
      (\<exists>r. GL_CreateTexture plat bpp env rd world t = Inr r))"
proof (intro conjI impI)
  assume a: "GL_CreateTexture plat bpp env rd world t = Inr (rd', world', t', calls) \<and>
    0 \<le> tex_w t \<and> 0 \<le> tex_h t"
  then have cr: "GL_CreateTexture plat bpp env rd world t = Inr (rd', world', t', calls)" by simp
  from cr obtain data texture_w texture_h plane_w plane_h where
    d: "driverdata t' = Some data" and
    td: "texture_dims rd (tex_w t) (tex_h t) = Some (texture_w, texture_h, texw data, texh data)" and
    pd: "(if (tex_format t = SDL_PIXELFORMAT_YV12 \<or> tex_format t = SDL_PIXELFORMAT_IYUV) \<or>
         (tex_format t = SDL_PIXELFORMAT_NV12 \<or> tex_format t = SDL_PIXELFORMAT_NV21)
      then plane_dims texture_w texture_h else Some (0, 0)) = Some (plane_w, plane_h)" and
    y: "yuv data \<longleftrightarrow> tex_format t = SDL_PIXELFORMAT_YV12 \<or> tex_format t = SDL_PIXELFORMAT_IYUV" and
    n: "nv12 data \<longleftrightarrow> tex_format t = SDL_PIXELFORMAT_NV12 \<or> tex_format t = SDL_PIXELFORMAT_NV21" and
    imgs: "texture_images calls = (Some (texture data), texture_w, texture_h) #
       map (\<lambda>name. (Some name, plane_w, plane_h)) (auxiliary_names data)" and
    gens: "generated_textures calls = texture data # auxiliary_names data"
    by (rule GL_CreateTexture_data)
  have nn: "0 \<le> texture_w" "0 \<le> texture_h"
    using td a by (auto simp: texture_dims_def split: if_splits option.splits dest!: power_of_2_positive)
  have half: "plane_w = \<lceil>real_of_int texture_w / 2\<rceil> \<and> plane_h = \<lceil>real_of_int texture_h / 2\<rceil>"
    if "auxiliary_names data \<noteq> []"
  proof -
    from that y n have "(tex_format t = SDL_PIXELFORMAT_YV12 \<or> tex_format t = SDL_PIXELFORMAT_IYUV) \<or>
         (tex_format t = SDL_PIXELFORMAT_NV12 \<or> tex_format t = SDL_PIXELFORMAT_NV21)"
      by (auto simp: auxiliary_names_def split: if_splits)
    with pd have "plane_dims texture_w texture_h = Some (plane_w, plane_h)" by simp
    then have "plane_w = (texture_w + 1) sdiv 2" "plane_h = (texture_h + 1) sdiv 2"
      by (auto simp: plane_dims_def split: option.splits dest!: int_add_Some)
    with nn show ?thesis by (simp add: sdiv_half_ceiling)
  qed
  have imgs': "texture_images calls = (Some (texture data), texture_w, texture_h) #
          map (\<lambda>name. (Some name, \<lceil>real_of_int texture_w / 2\<rceil>, \<lceil>real_of_int texture_h / 2\<rceil>))
            (auxiliary_names data)"
    using imgs half by (cases "auxiliary_names data = []") simp_all
  have cnt: "length (auxiliary_names data) = auxiliary_planes (tex_format t)"
    using y n by (cases "tex_format t") (simp_all add: auxiliary_names_def)
  from d imgs' gens cnt y n
  show "\<exists>data texture_w texture_h.
        driverdata t' = Some data \<and>
        texture_images calls = (Some (texture data), texture_w, texture_h) #
          map (\<lambda>name. (Some name, \<lceil>real_of_int texture_w / 2\<rceil>, \<lceil>real_of_int texture_h / 2\<rceil>))
            (auxiliary_names data) \<and>
        generated_textures calls = texture data # auxiliary_names data \<and>
        length (auxiliary_names data) = auxiliary_planes (tex_format t) \<and>
        (tex_format t = SDL_PIXELFORMAT_YV12 \<or> tex_format t = SDL_PIXELFORMAT_IYUV \<longrightarrow>
           auxiliary_names data = [utexture data, vtexture data]) \<and>
        (tex_format t = SDL_PIXELFORMAT_NV12 \<or> tex_format t = SDL_PIXELFORMAT_NV21 \<longrightarrow>
           auxiliary_names data = [utexture data]) \<and>
        (tex_format t \<noteq> SDL_PIXELFORMAT_YV12 \<and> tex_format t \<noteq> SDL_PIXELFORMAT_IYUV \<and>
         tex_format t \<noteq> SDL_PIXELFORMAT_NV12 \<and> tex_format t \<noteq> SDL_PIXELFORMAT_NV21 \<longrightarrow>
           auxiliary_names data = [])"
    by (intro exI [of _ data] exI [of _ texture_w] exI [of _ texture_h])
       (auto simp: auxiliary_names_def)
next
  assume "creation_unhindered plat env rd t \<and> request_in_range bpp t"
  then show "\<exists>r. GL_CreateTexture plat bpp env rd world t = Inr r"
    using GL_CreateTexture_succeeds [of plat env rd t bpp world] by blast
qed


text \<open>
  Textures of 5 by 3 pixels on the power-of-two driver, allocated 8 by 4. NV12: the image
  of the primary texture 1 and one 4 by 2 image for the auxiliary texture 2. YV12: the
  image of the primary texture 1 and 4 by 2 images for the auxiliary textures 2 and 3.
  ARGB8888: the image of the primary texture 1 only.
\<close>

theorem auxiliary_textures_witness:
  "(\<exists>rd' world' t' calls.
      GL_CreateTexture OTHER_PLATFORM example_bytesperpixel example_env example_renderdata
        example_world (example_texture SDL_PIXELFORMAT_NV12 SDL_TEXTUREACCESS_STATIC 5 3) =
        Inr (rd', world', t', calls) \<and>
      texture_images calls = [(Some 1, 8, 4), (Some 2, 4, 2)] \<and>
      generated_textures calls = [1, 2]) \<and>
   (\<exists>rd' world' t' calls.
      GL_CreateTexture OTHER_PLATFORM example_bytesperpixel example_env example_renderdata
        example_world (example_texture SDL_PIXELFORMAT_YV12 SDL_TEXTUREACCESS_STATIC 5 3) =
        Inr (rd', world', t', calls) \<and>
      texture_images calls = [(Some 1, 8, 4), (Some 2, 4, 2), (Some 3, 4, 2)] \<and>
      generated_textures calls = [1, 2, 3]) \<and>
   (\<exists>rd' world' t' calls.
      GL_CreateTexture OTHER_PLATFORM example_bytesperpixel example_env example_renderdata
        example_world (example_texture SDL_PIXELFORMAT_ARGB8888 SDL_TEXTUREACCESS_STATIC 5 3) =
        Inr (rd', world', t', calls) \<and>
      texture_images calls = [(Some 1, 8, 4)] \<and>
      generated_textures calls = [1])"
proof -
  have c: "\<lceil>(8::real) / 2\<rceil> = 4" "\<lceil>(4::real) / 2\<rceil> = 2" by (simp_all add: ceiling_eq_iff)
  have gen: "\<exists>rd' world' t' calls.
      GL_CreateTexture OTHER_PLATFORM example_bytesperpixel example_env example_renderdata
        example_world (example_texture f SDL_TEXTUREACCESS_STATIC 5 3) =
        Inr (rd', world', t', calls) \<and>
      texture_images calls = (Some 1, 8, 4) # map (\<lambda>name. (Some name, 4, 2)) names \<and>
      generated_textures calls = 1 # names"
    if "convert_format OTHER_PLATFORM f \<noteq> None"
       "names = (if f = SDL_PIXELFORMAT_YV12 \<or> f = SDL_PIXELFORMAT_IYUV then [2, 3]
                 else if f = SDL_PIXELFORMAT_NV12 \<or> f = SDL_PIXELFORMAT_NV21 then [2] else [])"
    for f names
  proof -
    let ?t = "example_texture f SDL_TEXTUREACCESS_STATIC 5 3"
    note inst = auxiliary_textures [where plat = OTHER_PLATFORM and bpp = example_bytesperpixel
        and env = example_env and rd = example_renderdata and world = example_world and t = ?t]
    have ir: "request_in_range example_bytesperpixel ?t" by (rule example_in_range) simp_all
    from inst example_unhindered(1) [OF that(1)] ir
    obtain rd' world' t' calls where e:
      "GL_CreateTexture OTHER_PLATFORM example_bytesperpixel example_env example_renderdata
         example_world ?t = Inr (rd', world', t', calls)"
      by (metis prod_cases4)
    have t: "tex_format ?t = f" "tex_w ?t = 5" "tex_h ?t = 3"
      by (simp_all add: example_texture_def)
    have g: "\<not> GL_ARB_texture_non_power_of_two_supported example_renderdata"
      "\<not> GL_ARB_texture_rectangle_supported example_renderdata"
      "gen_texture example_env = 1" "gen_utexture example_env = 2" "gen_vtexture example_env = 3"
      by (simp_all add: example_renderdata_def example_env_def)
    from e obtain data0 tw0 th0 pw ph where q:
      "driverdata t' = Some data0"
      "texture_dims example_renderdata (tex_w ?t) (tex_h ?t) = Some (tw0, th0, texw data0, texh data0)"
      "texture_images calls = (Some (texture data0), tw0, th0) #
         map (\<lambda>name. (Some name, pw, ph)) (auxiliary_names data0)"
      "texture data0 = gen_texture example_env"
      "utexture data0 = (if (tex_format ?t = SDL_PIXELFORMAT_YV12 \<or> tex_format ?t = SDL_PIXELFORMAT_IYUV) \<or>
                         (tex_format ?t = SDL_PIXELFORMAT_NV12 \<or> tex_format ?t = SDL_PIXELFORMAT_NV21)
                      then gen_utexture example_env else 0)"
      "vtexture data0 = (if tex_format ?t = SDL_PIXELFORMAT_YV12 \<or> tex_format ?t = SDL_PIXELFORMAT_IYUV
                      then gen_vtexture example_env else 0)"
      by (rule GL_CreateTexture_data)
    from q(2) g have dims: "tw0 = 8" "th0 = 4"
      by (simp_all add: t texture_dims_def power_of_2_examples)
    from inst [of rd' world' t' calls] e
    obtain data texture_w texture_h where r:
      "driverdata t' = Some data"
      "texture_images calls = (Some (texture data), texture_w, texture_h) #
            map (\<lambda>name. (Some name, \<lceil>real_of_int texture_w / 2\<rceil>, \<lceil>real_of_int texture_h / 2\<rceil>))
              (auxiliary_names data)"
      "generated_textures calls = texture data # auxiliary_names data"
      "f = SDL_PIXELFORMAT_YV12 \<or> f = SDL_PIXELFORMAT_IYUV \<longrightarrow>
         auxiliary_names data = [utexture data, vtexture data]"
      "f = SDL_PIXELFORMAT_NV12 \<or> f = SDL_PIXELFORMAT_NV21 \<longrightarrow>
         auxiliary_names data = [utexture data]"
      "f \<noteq> SDL_PIXELFORMAT_YV12 \<and> f \<noteq> SDL_PIXELFORMAT_IYUV \<and>
       f \<noteq> SDL_PIXELFORMAT_NV12 \<and> f \<noteq> SDL_PIXELFORMAT_NV21 \<longrightarrow> auxiliary_names data = []"
      unfolding t by auto
    from r(1) q(1) have same: "data0 = data" by simp
    from r(2) q(3) dims have w: "texture_w = 8" "texture_h = 4" by (simp_all add: same)
    have names: "auxiliary_names data = names"
      using r(4-6) q(5,6) that(2) g by (auto simp: same t)
    from r(2,3) w c names q(4) g have
      "texture_images calls = (Some 1, 8, 4) # map (\<lambda>name. (Some name, 4, 2)) names"
      "generated_textures calls = 1 # names"
      by (simp_all add: same [symmetric])
    with e show ?thesis by blast
  qed
  show ?thesis
    using gen [of SDL_PIXELFORMAT_NV12 "[2]"] gen [of SDL_PIXELFORMAT_YV12 "[2, 3]"]
      gen [of SDL_PIXELFORMAT_ARGB8888 "[]"]
    by simp
qed


subsection \<open>Destroying a destroyed texture\<close>

lemma GL_ActivateRenderer_active:
  "renderer_active data world \<Longrightarrow> GL_ActivateRenderer data world = (0, data, world)"
  by (auto simp: renderer_active_def GL_ActivateRenderer_def GL_ClearErrors_def split: if_splits)

text \<open>
  Claim C9, as the code has it. After \<open>GL_DestroyTexture\<close> the texture has no backend
  data. Called on a texture without backend data, it leaves the texture as it is, makes
  no driver call and frees nothing; what it does to the renderer and the driver is what
  \<open>GL_ActivateRenderer\<close> does (make the renderer's context current, clear the recorded
  errors of a debug context), and nothing at all when the renderer is already active
  with no error recorded.
\<close>

theorem GL_DestroyTexture_destroyed:
  "driverdata (fst (snd (snd (GL_DestroyTexture rd world t)))) = None \<and>
   (driverdata t = None \<longrightarrow>
      GL_DestroyTexture rd world t =
        (fst (snd (GL_ActivateRenderer rd world)), snd (snd (GL_ActivateRenderer rd world)), t, []) \<and>
      (renderer_active rd world \<longrightarrow> GL_DestroyTexture rd world t = (rd, world, t, [])))"
proof -
  obtain ret rd' world' where a: "GL_ActivateRenderer rd world = (ret, rd', world')"
    by (metis prod_cases3)
  have 1: "driverdata (fst (snd (snd (GL_DestroyTexture rd world t)))) = None"
    by (cases "driverdata t") (simp_all add: GL_DestroyTexture_def a)
  have 2: "GL_DestroyTexture rd world t =
        (fst (snd (GL_ActivateRenderer rd world)), snd (snd (GL_ActivateRenderer rd world)), t, [])"
    if "driverdata t = None"
    using that by (simp add: GL_DestroyTexture_def a)
  have 3: "GL_DestroyTexture rd world t = (rd, world, t, [])"
    if "driverdata t = None" "renderer_active rd world"
    using 2 [OF that(1)] GL_ActivateRenderer_active [OF that(2)] by simp
  from 1 2 3 show ?thesis by blast
qed

text \<open>
  On a texture without backend data: with another context current and an error recorded,
  the call switches the context and drops the error; with the renderer active it changes
  nothing.
\<close>

theorem GL_DestroyTexture_destroyed_witness:
  "GL_DestroyTexture example_debug_renderdata example_world
     (example_texture SDL_PIXELFORMAT_ARGB8888 SDL_TEXTUREACCESS_STATIC 5 3) =
     (example_debug_renderdata\<lparr>error_messages := []\<rparr>,
      example_world\<lparr>current_context := Some 1\<rparr>,
      example_texture SDL_PIXELFORMAT_ARGB8888 SDL_TEXTUREACCESS_STATIC 5 3, [])
   \<and> GL_DestroyTexture example_renderdata (example_world\<lparr>current_context := Some 1\<rparr>)
     (example_texture SDL_PIXELFORMAT_ARGB8888 SDL_TEXTUREACCESS_STATIC 5 3) =
     (example_renderdata, example_world\<lparr>current_context := Some 1\<rparr>,
      example_texture SDL_PIXELFORMAT_ARGB8888 SDL_TEXTUREACCESS_STATIC 5 3, [])"
proof -
  let ?t = "example_texture SDL_PIXELFORMAT_ARGB8888 SDL_TEXTUREACCESS_STATIC 5 3"
  have n: "driverdata ?t = None" by (simp add: example_texture_def)
  have act: "renderer_active example_renderdata (example_world\<lparr>current_context := Some 1\<rparr>)"
    by (simp add: renderer_active_def example_renderdata_def example_world_def)
  have a: "GL_ActivateRenderer example_debug_renderdata example_world =
     (0, example_debug_renderdata\<lparr>error_messages := []\<rparr>,
      example_world\<lparr>current_context := Some 1\<rparr>)"
    by (simp add: GL_ActivateRenderer_def GL_ClearErrors_def example_debug_renderdata_def
        example_world_def)
  from GL_DestroyTexture_destroyed [of example_debug_renderdata example_world ?t]
       GL_DestroyTexture_destroyed [of example_renderdata "example_world\<lparr>current_context := Some 1\<rparr>" ?t]
       n act a GL_ActivateRenderer_active [OF act]
  show ?thesis by simp
qed

text \<open>
  The second call is not without effect on the renderer state: here it empties the list
  of recorded error messages and changes the current context.
\<close>

theorem GL_DestroyTexture_no_effect_counterexample:
  "driverdata (example_texture SDL_PIXELFORMAT_ARGB8888 SDL_TEXTUREACCESS_STATIC 5 3) = None \<and>
   fst (GL_DestroyTexture example_debug_renderdata example_world
          (example_texture SDL_PIXELFORMAT_ARGB8888 SDL_TEXTUREACCESS_STATIC 5 3))
     \<noteq> example_debug_renderdata \<and>
   error_messages (fst (GL_DestroyTexture example_debug_renderdata example_world
          (example_texture SDL_PIXELFORMAT_ARGB8888 SDL_TEXTUREACCESS_STATIC 5 3))) = [] \<and>
   error_messages example_debug_renderdata = [''GL_INVALID_VALUE''] \<and>
   current_context (fst (snd (GL_DestroyTexture example_debug_renderdata example_world
          (example_texture SDL_PIXELFORMAT_ARGB8888 SDL_TEXTUREACCESS_STATIC 5 3)))) = Some 1 \<and>
   current_context example_world = Some 2"
  by (simp add: GL_DestroyTexture_def GL_ActivateRenderer_def GL_ClearErrors_def
      example_debug_renderdata_def example_world_def example_texture_def)

subsection \<open>Queued vertices\<close>

lemma queue_points_loop_eq:
  "i \<le> count \<Longrightarrow> count \<le> length points \<Longrightarrow>
   queue_points_loop points count i = Some (concat (map snapped (drop i (take count points))))"
proof (induction points count i rule: queue_points_loop.induct)
  case (1 points count i)
  show ?case
  proof (cases "i < count")
    case False
    with "1.prems" show ?thesis by (subst queue_points_loop.simps) simp
  next
    case True
    with "1.prems" have il: "i < length points" by simp
    have d: "drop i (take count points) = points ! i # drop (Suc i) (take count points)"
      using True il by (simp add: Cons_nth_drop_Suc [symmetric])
    from "1.IH" [OF True il] True "1.prems"
    have "queue_points_loop points count (Suc i) =
            Some (concat (map snapped (drop (Suc i) (take count points))))" by simp
    then show ?thesis
      using True il by (subst queue_points_loop.simps) (simp add: d snapped_def)
  qed
qed

lemma concat_snapped_length: "length (concat (map snapped ps)) = 2 * length ps"
  by (induction ps) (simp_all add: snapped_def)

lemma concat_snapped_nth:
  "i < length ps \<Longrightarrow>
     concat (map snapped ps) ! (2 * i) = float32_add (1 / 2) (point_x (ps ! i)) \<and>
     concat (map snapped ps) ! (2 * i + 1) = float32_add (1 / 2) (point_y (ps ! i))"
proof (induction ps arbitrary: i)
  case Nil
  then show ?case by simp
next
  case (Cons a ps)
  show ?case
  proof (cases i)
    case 0
    then show ?thesis by (simp add: snapped_def)
  next
    case (Suc j)
    with Cons.prems have "j < length ps" by simp
    from Cons.IH [OF this] Suc show ?thesis by (simp add: snapped_def)
  qed
qed

lemma float32_add_half_exact:
  "is_float32 (x + 1 / 2) \<Longrightarrow> float32_add (1 / 2) x = x + 1 / 2"
  by (simp add: float32_add_def float32_round_exact add.commute)

text \<open>
  Claim C10, as the code has it. A successful call of \<open>GL_QueueDrawPoints\<close> with \<open>count\<close>
  input points writes exactly \<open>2 * count\<close> floats, the x and y of each point in order,
  each the single-precision sum of 0.5 and the input coordinate: the input coordinate
  plus 0.5 rounded to the nearest single-precision number, which is the input coordinate
  plus 0.5 itself whenever that is a single-precision number, as it is for every whole
  coordinate below \<open>2^23\<close> in magnitude. The call stores \<open>count\<close> (and the offset of the
  block) in the command; the table entries for points and for lines are this one
  function.
\<close>

theorem GL_QueueDrawPoints_vertices:
  assumes "count \<le> length points"
  shows "\<exists>verts.
     GL_QueueDrawPoints (Some first) cmd points count =
       Inr (cmd\<lparr>draw_first := first, draw_count := count\<rparr>, verts) \<and>
     length verts = 2 * count \<and>
     (\<forall>i<count.
        verts ! (2 * i) = float32_round (point_x (points ! i) + 1 / 2) \<and>
        verts ! (2 * i + 1) = float32_round (point_y (points ! i) + 1 / 2) \<and>
        (is_float32 (point_x (points ! i) + 1 / 2) \<longrightarrow>
           verts ! (2 * i) = point_x (points ! i) + 1 / 2) \<and>
        (is_float32 (point_y (points ! i) + 1 / 2) \<longrightarrow>
           verts ! (2 * i + 1) = point_y (points ! i) + 1 / 2) \<and>
        (\<forall>n. \<bar>n\<bar> < 2 ^ 23 \<and> point_x (points ! i) = real_of_int n \<longrightarrow>
           verts ! (2 * i) = real_of_int n + 1 / 2) \<and>
        (\<forall>n. \<bar>n\<bar> < 2 ^ 23 \<and> point_y (points ! i) = real_of_int n \<longrightarrow>
           verts ! (2 * i + 1) = real_of_int n + 1 / 2)) \<and>
     QueueDrawPoints = GL_QueueDrawPoints \<and> QueueDrawLines = GL_QueueDrawPoints"
proof -
  let ?verts = "concat (map snapped (take count points))"
  have q: "queue_points_loop points count 0 = Some ?verts"
    using queue_points_loop_eq [of 0 count points] assms by simp
  have l: "length ?verts = 2 * count"
    using assms by (simp add: concat_snapped_length)
  have n: "?verts ! (2 * i) = float32_add (1 / 2) (point_x (points ! i)) \<and>
           ?verts ! (2 * i + 1) = float32_add (1 / 2) (point_y (points ! i))" if "i < count" for i
    using concat_snapped_nth [of i "take count points"] that assms by simp
  have "verts1 = float32_add (1 / 2) x \<Longrightarrow>
       verts1 = float32_round (x + 1 / 2) \<and>
       (is_float32 (x + 1 / 2) \<longrightarrow> verts1 = x + 1 / 2) \<and>
       (\<forall>n. \<bar>n\<bar> < 2 ^ 23 \<and> x = real_of_int n \<longrightarrow> verts1 = real_of_int n + 1 / 2)"
    for verts1 x
    by (auto simp: float32_add_def add.commute float32_round_exact is_float32_half_integer)
  note r' = this
  have every: "\<forall>i<count.
        ?verts ! (2 * i) = float32_round (point_x (points ! i) + 1 / 2) \<and>
        ?verts ! (2 * i + 1) = float32_round (point_y (points ! i) + 1 / 2) \<and>
        (is_float32 (point_x (points ! i) + 1 / 2) \<longrightarrow>
           ?verts ! (2 * i) = point_x (points ! i) + 1 / 2) \<and>
        (is_float32 (point_y (points ! i) + 1 / 2) \<longrightarrow>
           ?verts ! (2 * i + 1) = point_y (points ! i) + 1 / 2) \<and>
        (\<forall>n. \<bar>n\<bar> < 2 ^ 23 \<and> point_x (points ! i) = real_of_int n \<longrightarrow>
           ?verts ! (2 * i) = real_of_int n + 1 / 2) \<and>
        (\<forall>n. \<bar>n\<bar> < 2 ^ 23 \<and> point_y (points ! i) = real_of_int n \<longrightarrow>
           ?verts ! (2 * i + 1) = real_of_int n + 1 / 2)"
  proof (intro allI impI)
    fix i assume "i < count"
    from n [OF this] have x: "?verts ! (2 * i) = float32_add (1 / 2) (point_x (points ! i))"
      and y: "?verts ! (2 * i + 1) = float32_add (1 / 2) (point_y (points ! i))" by simp_all
    from r' [OF x] r' [OF y]
    show "?verts ! (2 * i) = float32_round (point_x (points ! i) + 1 / 2) \<and>
        ?verts ! (2 * i + 1) = float32_round (point_y (points ! i) + 1 / 2) \<and>
        (is_float32 (point_x (points ! i) + 1 / 2) \<longrightarrow>
           ?verts ! (2 * i) = point_x (points ! i) + 1 / 2) \<and>
        (is_float32 (point_y (points ! i) + 1 / 2) \<longrightarrow>
           ?verts ! (2 * i + 1) = point_y (points ! i) + 1 / 2) \<and>
        (\<forall>n. \<bar>n\<bar> < 2 ^ 23 \<and> point_x (points ! i) = real_of_int n \<longrightarrow>
           ?verts ! (2 * i) = real_of_int n + 1 / 2) \<and>
        (\<forall>n. \<bar>n\<bar> < 2 ^ 23 \<and> point_y (points ! i) = real_of_int n \<longrightarrow>
           ?verts ! (2 * i + 1) = real_of_int n + 1 / 2)"
      by blast
  qed
  have c1: "GL_QueueDrawPoints (Some first) cmd points count =
       Inr (cmd\<lparr>draw_first := first, draw_count := count\<rparr>, ?verts)"
    using q by (simp add: GL_QueueDrawPoints_def)
  have c5: "QueueDrawPoints = GL_QueueDrawPoints" "QueueDrawLines = GL_QueueDrawPoints"
    by (simp_all add: QueueDrawPoints_def QueueDrawLines_def)
  from c1 l every c5 show ?thesis by blast
qed

text \<open>Queueing the line from (1, 2) to (3, 4) writes 1.5, 2.5, 3.5, 4.5.\<close>

theorem GL_QueueDrawPoints_vertices_witness:
  "\<exists>verts. QueueDrawLines (Some 8) \<lparr>draw_first = 0, draw_count = 0, draw_r = 0, draw_g = 0, draw_b = 0,
        draw_a = 255, draw_blend = 0, draw_texture = None\<rparr>
      [\<lparr>point_x = 1, point_y = 2\<rparr>, \<lparr>point_x = 3, point_y = 4\<rparr>] 2 =
     Inr (\<lparr>draw_first = 8, draw_count = 2, draw_r = 0, draw_g = 0, draw_b = 0,
        draw_a = 255, draw_blend = 0, draw_texture = None\<rparr>, verts) \<and>
     length verts = 4 \<and> verts ! 0 = 1.5 \<and> verts ! 1 = 2.5 \<and> verts ! 2 = 3.5 \<and> verts ! 3 = 4.5"
proof -
  let ?cmd = "\<lparr>draw_first = 0, draw_count = 0, draw_r = 0, draw_g = 0, draw_b = 0,
        draw_a = 255, draw_blend = 0, draw_texture = None\<rparr>"
  let ?pts = "[\<lparr>point_x = 1, point_y = 2\<rparr>, \<lparr>point_x = 3, point_y = 4\<rparr>]"
  have h: "2 \<le> length ?pts" by simp
  from GL_QueueDrawPoints_vertices [OF h, of 8 ?cmd]
  obtain verts where v: "GL_QueueDrawPoints (Some 8) ?cmd ?pts 2 =
       Inr (?cmd\<lparr>draw_first := 8, draw_count := 2\<rparr>, verts)"
     "length verts = 2 * 2"
     "\<forall>i<2. (\<forall>n. \<bar>n\<bar> < 2 ^ 23 \<and> point_x (?pts ! i) = real_of_int n \<longrightarrow>
                 verts ! (2 * i) = real_of_int n + 1 / 2) \<and>
            (\<forall>n. \<bar>n\<bar> < 2 ^ 23 \<and> point_y (?pts ! i) = real_of_int n \<longrightarrow>
                 verts ! (2 * i + 1) = real_of_int n + 1 / 2)"
     "QueueDrawLines = GL_QueueDrawPoints"
    by blast
  from v(3) [rule_format, of 0] have a: "verts ! 0 = 1.5" "verts ! 1 = 2.5"
    using conjunct1 [OF v(3) [rule_format, of 0], rule_format, of 1]
          conjunct2 [OF v(3) [rule_format, of 0], rule_format, of 2] by simp_all
  have b: "verts ! 2 = 3.5" "verts ! 3 = 4.5"
    using conjunct1 [OF v(3) [rule_format, of 1], rule_format, of 3]
          conjunct2 [OF v(3) [rule_format, of 1], rule_format, of 4]
    by (simp_all add: numeral_3_eq_3)
  from a b v(1) v(2) v(4) show ?thesis by simp
qed

text \<open>
  The point (8388609, 0) has a single-precision x coordinate; the float queued for it is
  8388610, not 8388609.5, which lies halfway between two single-precision numbers.
\<close>

theorem pixel_centre_counterexample:
  "is_float32 8388609 \<and>
   GL_QueueDrawPoints (Some 0) (example_draw 0 0 0) [\<lparr>point_x = 8388609, point_y = 0\<rparr>] 1 =
     Inr (example_draw 0 0 1, [8388610, 1 / 2]) \<and>
   (8388610::real) \<noteq> 8388609 + 1 / 2"
proof -
  have "is_float32 (real_of_int 8388609)" by (rule is_float32_of_int) simp
  then have f: "is_float32 8388609" by simp
  have h: "float32_add (1 / 2) 0 = 1 / 2"
    using float32_add_half_exact [of 0] is_float32_half_integer [of 0] by simp
  have t: "float32_add (1 / 2) 8388609 = 8388610"
    using float32_round_tie_8388609 by (simp add: float32_add_def add.commute)
  have "queue_points_loop [\<lparr>point_x = 8388609, point_y = 0\<rparr>] 1 0 = Some [8388610, 1 / 2]"
    by (simp add: queue_points_loop.simps h t)
  with f show ?thesis by (simp add: GL_QueueDrawPoints_def example_draw_def)
qed

subsection \<open>The cached pipeline state\<close>

lemma field_calls_append [simp]:
  "field_calls tt f (xs @ ys) = field_calls tt f xs @ field_calls tt f ys"
  by (simp add: field_calls_def)

lemma field_calls_Nil [simp]: "field_calls tt f [] = []"
  by (simp add: field_calls_def)


lemma set_draw_color_eq:
  "set_draw_color cmd st =
     (if pack_color (draw_r cmd) (draw_g cmd) (draw_b cmd) (draw_a cmd) \<noteq> draw_color st
      then [glColor4f (color4f (draw_r cmd)) (color4f (draw_g cmd)) (color4f (draw_b cmd))
              (color4f (draw_a cmd))]
      else [],
      st\<lparr>draw_color := pack_color (draw_r cmd) (draw_g cmd) (draw_b cmd) (draw_a cmd)\<rparr>)"
  by (simp add: set_draw_color_def Let_def)

lemma set_blend_eq:
  "set_blend acc cmd st =
     (if draw_blend cmd \<noteq> blend st
      then (if draw_blend cmd = SDL_BLENDMODE_NONE then [glDisable GL_BLEND]
            else [glEnable GL_BLEND,
                  glBlendFuncSeparate
                    (GetBlendFunc (SDL_GetBlendModeSrcColorFactor acc (draw_blend cmd)))
                    (GetBlendFunc (SDL_GetBlendModeDstColorFactor acc (draw_blend cmd)))
                    (GetBlendFunc (SDL_GetBlendModeSrcAlphaFactor acc (draw_blend cmd)))
                    (GetBlendFunc (SDL_GetBlendModeDstAlphaFactor acc (draw_blend cmd))),
                  glBlendEquation
                    (GetBlendEquation (SDL_GetBlendModeColorOperation acc (draw_blend cmd)))])
      else [],
      st\<lparr>blend := draw_blend cmd\<rparr>)"
  by (simp add: set_blend_def Let_def)

lemma set_shader_eq:
  "set_shader data sh st =
     (if shaders data \<and> sh \<noteq> shader st then [GL_SelectShader sh] else [],
      if shaders data then st\<lparr>shader := sh\<rparr> else st)"
  by (simp add: set_shader_def)

lemma set_texturing_eq:
  "set_texturing data cmd st =
     (if (draw_texture cmd \<noteq> None) \<noteq> texturing st
      then (if draw_texture cmd = None then [glDisable (textype data)]
            else [glEnable (textype data)])
      else [],
      if (draw_texture cmd \<noteq> None) \<noteq> texturing st then st\<lparr>texturing := False\<rparr> else st)"
  by (simp add: set_texturing_def)

lemma SetDrawState_eq:
  "SetDrawState data acc cmd sh st =
     (fst (set_draw_color cmd st) @ fst (set_blend acc cmd st) @ fst (set_shader data sh st) @
      fst (set_texturing data cmd st),
      snd (set_texturing data cmd (snd (set_shader data sh
            (snd (set_blend acc cmd (snd (set_draw_color cmd st))))))))"
  by (simp add: SetDrawState_def set_draw_color_eq set_blend_eq set_shader_eq set_texturing_eq
           split: prod.splits)



text \<open>
  The texturing flag of the cache never becomes true: \<open>SetDrawState\<close> stores false in it
  after \<open>glEnable\<close> as well as after \<open>glDisable\<close> (lines 1203 and 1206).
\<close>

lemma texturing_cache_stays_false:
  "\<not> texturing st \<Longrightarrow> \<not> texturing (snd (SetDrawState data acc cmd sh st))"
  by (simp add: SetDrawState_eq set_draw_color_eq set_blend_eq set_shader_eq set_texturing_eq)













subsection \<open>Viewport and clear\<close>

text \<open>
  Claim C5 at a failing input. The renderer's viewport is 640 by 480 and the command
  carries the viewport 320 by 240 of the window: \<open>glViewport\<close> takes the new rectangle
  (flipped with the drawable height 480), but \<open>glOrtho\<close> takes the 640 by 480 of
  \<open>renderer->viewport\<close>, not the 320 by 240 of the new rectangle.
\<close>

theorem SetViewport_projection_example:
  "run_command example_run_env example_renderer example_vertices
     (SDL_RENDERCMD_SETVIEWPORT \<lparr>rect_x = 0, rect_y = 0, rect_w = 320, rect_h = 240\<rparr>)
     (initial_cache example_renderer) =
   Some ([glMatrixMode GL_PROJECTION, glLoadIdentity, glViewport 0 240 320 240,
          glOrtho 0 640 480 0 0 1, glMatrixMode GL_MODELVIEW],
         (initial_cache example_renderer)
           \<lparr>viewport := \<lparr>rect_x = 0, rect_y = 0, rect_w = 320, rect_h = 240\<rparr>\<rparr>)"
  by (simp add: run_command_def viewport_calls_def istarget_of_def drawableh_of_def
      initial_cache_def example_renderer_def example_run_env_def)

text \<open>
  Claim C6 at a failing input. Clipping is enabled in the renderer when the run starts,
  the queue disables the clip rectangle and then clears: the scissor test is on after
  the calls before the loop, off after the SetClipRect command, and on again after the
  Clear command, which re-enables what the run-start flag says, not what was in force.
\<close>

theorem Clear_scissor_example:
  "scissor_after False (preamble_calls example_run_env example_renderer) = True \<and>
   map_option (scissor_after True \<circ> fst)
     (run_commands example_run_env example_renderer example_vertices
        [SDL_RENDERCMD_SETCLIPRECT False \<lparr>rect_x = 0, rect_y = 0, rect_w = 100, rect_h = 100\<rparr>]
        (initial_cache example_renderer)) = Some False \<and>
   map_option (scissor_after True \<circ> fst)
     (run_commands example_run_env example_renderer example_vertices
        [SDL_RENDERCMD_SETCLIPRECT False \<lparr>rect_x = 0, rect_y = 0, rect_w = 100, rect_h = 100\<rparr>,
         SDL_RENDERCMD_CLEAR 0 0 0 255]
        (initial_cache example_renderer)) = Some True"
  by (simp add: run_command_def preamble_calls_def viewport_calls_def scissor_call_def
      istarget_of_def drawableh_of_def initial_cache_def example_renderer_def
      example_run_env_def example_renderdata_def Let_def)

subsection \<open>Lines\<close>

lemma emit_vertices_simps [simp]:
  "emit_vertices vs p 0 = Some []"
  "emit_vertices vs p (Suc n) =
     (case (vread vs p, vread vs (p + 1)) of
        (Some x, Some y) \<Rightarrow>
          (case emit_vertices vs (p + 2) n of
             None \<Rightarrow> None
           | Some calls \<Rightarrow> Some (glVertex2f x y # calls))
      | _ \<Rightarrow> None)"
  by (auto simp: emit_vertices_def split: option.splits prod.splits)





lemma begins_simps [simp]:
  "begins [] = []"
  "begins (c # cs) = begin_mode c @ begins cs"
  "begins (xs @ ys) = begins xs @ begins ys"
  by (simp_all add: begins_def)


lemma begins_SetDrawState [simp]: "begins (fst (SetDrawState data acc cmd sh st)) = []"
  by (simp add: SetDrawState_eq set_draw_color_eq set_blend_eq set_shader_eq set_texturing_eq)

lemma filter_vertex_SetDrawState [simp]:
  "filter is_vertex (fst (SetDrawState data acc cmd sh st)) = []"
  by (simp add: SetDrawState_eq set_draw_color_eq set_blend_eq set_shader_eq set_texturing_eq)

lemma run_draw_lines:
  "run_command env renderer vs (SDL_RENDERCMD_DRAW_LINES cmd) st =
     map_option
       (\<lambda>lcalls. (fst (SetDrawState (renderer_driverdata renderer) (blend_accessors env) cmd
                        SHADER_SOLID st) @ lcalls,
                  snd (SetDrawState (renderer_driverdata renderer) (blend_accessors env) cmd
                        SHADER_SOLID st)))
       (draw_lines_calls (env_platform env) vs (draw_first cmd) (draw_count cmd))"
  by (simp add: run_command_def Let_def split: prod.splits option.splits)












lemma example_vertices_lines:
  "draw_lines_calls MACOSX example_vertices 0 2 =
     Some [glBegin GL_LINE_STRIP, glVertex2f 0 0, glVertex2f 10 10, glEnd, glBegin GL_POINTS,
           glVertex2f 30 30, glEnd]"
  by (simp add: draw_lines_calls_def draw_lines_trace_def lines_closed_def extra_point_calls_def
      example_vertices_def vread_def eval_nat_numeral)




text \<open>
  The extra point of an open line is read behind the vertices of the command: the line
  from (0, 0) to (10, 10), followed in the buffer by (20, 20) and (30, 30), gets the extra
  point (30, 30) on Mac OS X.
\<close>

lemma extra_point_read_example:
  "map_option (filter is_vertex \<circ> fst)
     (run_command (example_run_env\<lparr>env_platform := MACOSX\<rparr>) example_renderer example_vertices
        (SDL_RENDERCMD_DRAW_LINES (example_draw 0 0 2)) (initial_cache example_renderer)) =
     Some [glVertex2f 0 0, glVertex2f 10 10, glVertex2f 30 30]"
proof -
  have "draw_first (example_draw 0 0 2) = 0" "draw_count (example_draw 0 0 2) = 2"
    by (simp_all add: example_draw_def)
  then show ?thesis
    by (simp add: run_draw_lines example_vertices_lines)
qed

end
